theory Spec2Isabelle
  imports Main "HOL-Library.AList" "HOL-Library.Multiset"
begin

section \<open>Go values: errors, panics, byte strings\<close>

text \<open>
  A Go \<open>string\<close> and a \<open>[]byte\<close> are sequences of bytes: both are HOL strings here.
  An \<open>error\<close> result is \<open>error option\<close> (\<open>None\<close> is \<open>nil\<close>). \<open>Error s\<close> is the value of
  \<open>errors.New(s)\<close>; the other constructors are the errors of the MongoDB driver
  (\<open>mgo.ErrNotFound\<close>, the marshalling error for an object id that is not 12 bytes long,
  and the server's duplicate key error). A call either panics or returns.
\<close>

datatype error = Error string | ErrNotFound | ErrMarshal | ErrDuplicateKey

datatype panic = InvalidObjectIdHex string | SliceBounds nat nat

datatype 'a outcome = Panic panic | Return 'a

text \<open>
  The slice expression \<open>b[:n]\<close> panics when \<open>n\<close> exceeds the capacity of \<open>b\<close>. A byte
  slice is modelled with capacity equal to its length.
\<close>

definition slice_to :: "nat \<Rightarrow> string \<Rightarrow> string outcome" where
  "slice_to n b = (if n \<le> length b then Return (take n b) else Panic (SliceBounds n (length b)))"

subsection \<open>encoding/hex and bson.ObjectId\<close>

definition hextable :: string where
  "hextable = ''0123456789abcdef''"

fun EncodeToString :: "string \<Rightarrow> string" where
  "EncodeToString [] = []"
| "EncodeToString (b # bs) =
     hextable ! ((of_char b :: nat) div 16) # hextable ! ((of_char b :: nat) mod 16) # EncodeToString bs"

definition fromHexChar :: "char \<Rightarrow> nat option" where
  "fromHexChar c =
     (let n = (of_char c :: nat) in
      if 48 \<le> n \<and> n \<le> 57 then Some (n - 48)
      else if 97 \<le> n \<and> n \<le> 102 then Some (n - 97 + 10)
      else if 65 \<le> n \<and> n \<le> 70 then Some (n - 65 + 10)
      else None)"

text \<open>\<open>hex.DecodeString\<close>: an error (\<open>None\<close>) on an odd length or on a byte that is no hex digit.\<close>

fun DecodeString :: "string \<Rightarrow> string option" where
  "DecodeString [] = Some []"
| "DecodeString [a] = None"
| "DecodeString (a # b # cs) =
     (case fromHexChar a of
        None \<Rightarrow> None
      | Some x \<Rightarrow>
          (case fromHexChar b of
             None \<Rightarrow> None
           | Some y \<Rightarrow>
               (case DecodeString cs of
                  None \<Rightarrow> None
                | Some ds \<Rightarrow> Some (char_of (x * 16 + y) # ds))))"

text \<open>
  \<open>bson.ObjectId\<close> is a string type holding 12 raw bytes. \<open>bson.ObjectIdHex\<close> panics unless
  its argument decodes to exactly 12 bytes; \<open>ObjectId.Hex\<close> is the lower-case hex encoding.
\<close>

definition ObjectIdHex :: "string \<Rightarrow> string outcome" where
  "ObjectIdHex s =
     (case DecodeString s of
        None \<Rightarrow> Panic (InvalidObjectIdHex s)
      | Some d \<Rightarrow> if length d \<noteq> 12 then Panic (InvalidObjectIdHex s) else Return d)"

definition Hex :: "string \<Rightarrow> string" where
  "Hex oid = EncodeToString oid"

text \<open>The specification's wording of a well-formed identifier: 24 characters, all hex digits.\<close>

definition is_hex_digit :: "char \<Rightarrow> bool" where
  "is_hex_digit c = (c \<in> set ''0123456789abcdefABCDEF'')"

definition valid_hex24 :: "string \<Rightarrow> bool" where
  "valid_hex24 s = (length s = 24 \<and> list_all is_hex_digit s)"

section \<open>BSON documents and the document store\<close>

text \<open>
  The MongoDB driver (\<open>gopkg.in/mgo.v2\<close> and its \<open>bson\<close> package) is outside this
  repository. Its operations are modelled here after their documented behaviour, for the
  selectors and updates this program issues.

  The BSON values this program stores. A document (\<open>bson.M\<close>, or a marshalled struct) is an
  association list from field names to values. A \<open>time.Time\<close> is a count of nanoseconds
  since the Unix epoch; BSON keeps milliseconds.
\<close>

datatype bson =
    BNull
  | BString string
  | BObjectId string
  | BTime int
  | BDoc "(string \<times> bson) list"
  | BArray "bson list"

type_synonym document = "(string \<times> bson) list"

type_synonym Time = int

definition Time0 :: Time where
  "Time0 = - 62135596800 * 1000000000"

text \<open>
  \<open>mgo.DBRef\<close>: a reference to a document of another collection. Its \<open>Id\<close> is an
  \<open>interface{}\<close>, held here as the BSON value it marshals to (\<open>BNull\<close> for \<open>nil\<close>); the
  \<open>$db\<close> field is omitted when empty.
\<close>

record DBRef =
  Collection :: string
  Id :: bson
  Database :: string

definition DBRef_zero :: DBRef where
  "DBRef_zero = \<lparr>Collection = [], Id = BNull, Database = []\<rparr>"

definition marshal_DBRef :: "DBRef \<Rightarrow> document" where
  "marshal_DBRef r =
     [(''$ref'', BString (Collection r)), (''$id'', Id r)] @
     (if DBRef.Database r = [] then [] else [(''$db'', BString (DBRef.Database r))])"

text \<open>The driver refuses to marshal an object id that is not 12 bytes long.\<close>

fun valid_bson :: "bson \<Rightarrow> bool" where
  "valid_bson (BObjectId s) = (length s = 12)"
| "valid_bson (BDoc kvs) = list_all valid_bson (map snd kvs)"
| "valid_bson (BArray vs) = list_all valid_bson vs"
| "valid_bson _ = True"

definition valid_doc :: "document \<Rightarrow> bool" where
  "valid_doc d = valid_bson (BDoc d)"

text \<open>
  \<open>bson.M\<close> is a Go map. The driver marshals it by ranging over it, and Go picks the
  iteration order of a map afresh each time. \<open>bson_M order kvs\<close> is the document of the
  map literal \<open>kvs\<close> in the iteration order that the choice \<open>order\<close> fixes: each number of
  \<open>order\<close> picks the next pair among those left, and pairs left over when \<open>order\<close> ends
  follow as written. Every order of the pairs is the result of some choice. A map of one
  key has one order; and the order of a selector has no effect on what it matches, so the
  selectors below are written as in the source.
\<close>

fun bson_M :: "nat list \<Rightarrow> document \<Rightarrow> document" where
  "bson_M order [] = []"
| "bson_M [] (kv # kvs) = kv # kvs"
| "bson_M (k # order) (kv # kvs) =
     (let i = k mod length (kv # kvs)
      in (kv # kvs) ! i # bson_M order (take i (kv # kvs) @ drop (Suc i) (kv # kvs)))"

text \<open>
  The state of the database behind \<open>MongoService\<close>: the session's safe mode (the driver's
  default is safe) and, for each collection name, its documents in insertion order.
  \<open>Copy\<close> and \<open>Close\<close> of the session do not touch the data and are not modelled.
\<close>

record mongo =
  Safe :: bool
  Database :: "string \<Rightarrow> document list"

definition C :: "mongo \<Rightarrow> string \<Rightarrow> document list" where
  "C m name = Database m name"

text \<open>A selector of the form \<open>bson.M{k: v, ...}\<close> matches a document that has each field equal.\<close>

definition matches :: "document \<Rightarrow> document \<Rightarrow> bool" where
  "matches selector doc = list_all (\<lambda>(k, v). map_of doc k = Some v) selector"

fun update_first :: "('a \<Rightarrow> bool) \<Rightarrow> ('a \<Rightarrow> 'a) \<Rightarrow> 'a list \<Rightarrow> 'a list" where
  "update_first p f [] = []"
| "update_first p f (x # xs) = (if p x then f x # xs else x # update_first p f xs)"

fun remove_first :: "('a \<Rightarrow> bool) \<Rightarrow> 'a list \<Rightarrow> 'a list" where
  "remove_first p [] = []"
| "remove_first p (x # xs) = (if p x then xs else x # remove_first p xs)"

text \<open>\<open>Find(selector).One\<close>: the first matching document, or \<open>ErrNotFound\<close>.\<close>

definition One :: "document \<Rightarrow> document list \<Rightarrow> error + document" where
  "One selector docs =
     (if valid_doc selector
      then (case find (matches selector) docs of None \<Rightarrow> Inl ErrNotFound | Some d \<Rightarrow> Inr d)
      else Inl ErrMarshal)"

text \<open>\<open>Find(selector).All\<close>: every matching document (\<open>Find(nil)\<close> is the empty selector).\<close>

definition All :: "document \<Rightarrow> document list \<Rightarrow> error + document list" where
  "All selector docs =
     (if valid_doc selector then Inr (filter (matches selector) docs) else Inl ErrMarshal)"

text \<open>\<open>Insert\<close>: appends the document unless its \<open>_id\<close> is already in the collection.\<close>

definition Insert :: "mongo \<Rightarrow> string \<Rightarrow> document \<Rightarrow> error option \<times> mongo" where
  "Insert m c doc =
     (if valid_doc doc
      then (if list_ex (\<lambda>d. map_of d ''_id'' = map_of doc ''_id'') (C m c)
            then (if Safe m then Some ErrDuplicateKey else None, m)
            else (None, m\<lparr>Database := (Database m)(c := C m c @ [doc])\<rparr>))
      else (Some ErrMarshal, m))"

text \<open>
  \<open>Update(selector, bson.M{"$set": changes})\<close>: in the first matching document each field of
  \<open>changes\<close> is set, and every other field is kept. With no match nothing changes, and in
  safe mode the result is \<open>ErrNotFound\<close>. Update operators other than \<open>$set\<close> are not
  used by this program.
\<close>

definition apply_update :: "document \<Rightarrow> document \<Rightarrow> document" where
  "apply_update update doc =
     (case map_of update ''$set'' of
        Some (BDoc changes) \<Rightarrow> foldl (\<lambda>d (k, v). AList.update k v d) doc changes
      | _ \<Rightarrow> doc)"

definition Update :: "mongo \<Rightarrow> string \<Rightarrow> document \<Rightarrow> document \<Rightarrow> error option \<times> mongo" where
  "Update m c selector update =
     (if valid_doc selector \<and> valid_doc update
      then (if list_ex (matches selector) (C m c)
            then (None, m\<lparr>Database := (Database m)
                    (c := update_first (matches selector) (apply_update update) (C m c))\<rparr>)
            else (if Safe m then Some ErrNotFound else None, m))
      else (Some ErrMarshal, m))"

text \<open>
  \<open>Remove(selector)\<close>: removes the first matching document. With no match nothing changes,
  and in safe mode the result is \<open>ErrNotFound\<close>.
\<close>

definition Remove :: "mongo \<Rightarrow> string \<Rightarrow> document \<Rightarrow> error option \<times> mongo" where
  "Remove m c selector =
     (if valid_doc selector
      then (if list_ex (matches selector) (C m c)
            then (None, m\<lparr>Database := (Database m)
                    (c := remove_first (matches selector) (C m c))\<rparr>)
            else (if Safe m then Some ErrNotFound else None, m))
      else (Some ErrMarshal, m))"

text \<open>
  Decoding a field into a struct: a missing or ill-typed field leaves the zero value (the
  driver resets the struct before decoding). A Go field of string kind accepts a BSON
  string and a BSON object id alike.
\<close>

definition string_field :: "document \<Rightarrow> string \<Rightarrow> string" where
  "string_field d k =
     (case map_of d k of Some (BString s) \<Rightarrow> s | Some (BObjectId s) \<Rightarrow> s | _ \<Rightarrow> [])"

definition time_field :: "document \<Rightarrow> string \<Rightarrow> Time" where
  "time_field d k = (case map_of d k of Some (BTime ms) \<Rightarrow> ms * 1000000 | _ \<Rightarrow> Time0)"

definition doc_field :: "document \<Rightarrow> string \<Rightarrow> document" where
  "doc_field d k = (case map_of d k of Some (BDoc x) \<Rightarrow> x | _ \<Rightarrow> [])"

definition array_field :: "document \<Rightarrow> string \<Rightarrow> bson list" where
  "array_field d k = (case map_of d k of Some (BArray xs) \<Rightarrow> xs | _ \<Rightarrow> [])"

definition any_field :: "document \<Rightarrow> string \<Rightarrow> bson" where
  "any_field d k = (case map_of d k of Some v \<Rightarrow> v | None \<Rightarrow> BNull)"

section \<open>The user service\<close>

text \<open>
  Modelled from the spec: the declaration of \<open>model.User\<close> is not among the source files.
  The service reads and writes the fields \<open>ID\<close>, \<open>Username\<close>, \<open>Password\<close>, \<open>Salt\<close>,
  \<open>Email\<close>, \<open>Firstname\<close> and \<open>Lastname\<close> (the middle four through the embedded
  \<open>security.User\<close>), and the specification gives the persisted layout: a flat document with
  the fields \<open>username, password, salt, email, firstname, lastname, _id\<close>.
\<close>

record User =
  Username :: string
  Password :: string
  Salt :: string
  Email :: string
  ID :: string
  Firstname :: string
  Lastname :: string

definition User_zero :: User where
  "User_zero = \<lparr>Username = [], Password = [], Salt = [], Email = [], ID = [],
     Firstname = [], Lastname = []\<rparr>"

definition marshal_User :: "User \<Rightarrow> document" where
  "marshal_User u =
     [(''username'', BString (Username u)), (''password'', BString (Password u)),
      (''salt'', BString (Salt u)), (''email'', BString (Email u)),
      (''_id'', BObjectId (User.ID u)),
      (''firstname'', BString (Firstname u)), (''lastname'', BString (Lastname u))]"

definition unmarshal_User :: "document \<Rightarrow> User" where
  "unmarshal_User d =
     \<lparr>Username = string_field d ''username'', Password = string_field d ''password'',
      Salt = string_field d ''salt'', Email = string_field d ''email'',
      ID = string_field d ''_id'',
      Firstname = string_field d ''firstname'', Lastname = string_field d ''lastname''\<rparr>"

text \<open>
  The security collaborator (\<open>lunarc/security\<close>) is outside this repository. Its hash and
  check functions are parameters of the service functions; the random salt and the fresh
  object id an operation draws are passed in as the values those calls return.
\<close>

type_synonym HashPassword_t = "string \<Rightarrow> string \<Rightarrow> error + string"

type_synonym CheckPassword_t = "string \<Rightarrow> string \<Rightarrow> string \<Rightarrow> error + bool"

definition UserService_Get ::
  "CheckPassword_t \<Rightarrow> mongo \<Rightarrow> string \<Rightarrow> string \<Rightarrow> User \<times> error option" where
  "UserService_Get CheckPassword m username password =
     (case One [(''username'', BString username)] (C m ''user'') of
        Inl err \<Rightarrow> (User_zero, Some err)
      | Inr d \<Rightarrow>
          (let user = unmarshal_User d in
           case CheckPassword password (Salt user) (Password user) of
             Inl err \<Rightarrow> (User_zero, Some err)
           | Inr valid \<Rightarrow>
               if valid then (user, None) else (User_zero, Some (Error ''Invalid password''))))"

text \<open>The body of \<open>GetByID\<close>, and the function with its deferred \<open>recover\<close>.\<close>

definition UserService_GetByID_body :: "mongo \<Rightarrow> string \<Rightarrow> (User \<times> error option) outcome" where
  "UserService_GetByID_body m ident =
     (case ObjectIdHex ident of
        Panic p \<Rightarrow> Panic p
      | Return oid \<Rightarrow>
          (case One [(''_id'', BObjectId oid)] (C m ''user'') of
             Inl err \<Rightarrow> Return (User_zero, Some err)
           | Inr d \<Rightarrow> Return (unmarshal_User d, None)))"

definition UserService_GetByID :: "mongo \<Rightarrow> string \<Rightarrow> (User \<times> error option) outcome" where
  "UserService_GetByID m ident =
     (case UserService_GetByID_body m ident of
        Panic p \<Rightarrow> Return (User_zero, Some (Error ''Incorrect ID''))
      | Return r \<Rightarrow> Return r)"

definition UserService_FindAll :: "mongo \<Rightarrow> User list \<times> error option" where
  "UserService_FindAll m =
     (case All [] (C m ''user'') of
        Inl err \<Rightarrow> ([], Some (Error ''Error''))
      | Inr ds \<Rightarrow> (map unmarshal_User ds, None))"

definition UserService_Add ::
  "HashPassword_t \<Rightarrow> string \<Rightarrow> error + string \<Rightarrow> mongo \<Rightarrow> User
     \<Rightarrow> (User \<times> error option) outcome \<times> mongo" where
  "UserService_Add HashPassword NewObjectId GenerateSalt m user =
     (let oid = NewObjectId in
      case GenerateSalt of
        Inl err \<Rightarrow> (Return (User_zero, Some (Error ''Error when generatiing Salt'')), m)
      | Inr salt \<Rightarrow>
          (case slice_to 32 salt of
             Panic p \<Rightarrow> (Panic p, m)
           | Return salt32 \<Rightarrow>
               (let user = user\<lparr>Salt := salt32\<rparr> in
                case HashPassword (Password user) salt of
                  Inl err \<Rightarrow> (Return (User_zero, Some err), m)
                | Inr password \<Rightarrow>
                    (case slice_to 32 password of
                       Panic p \<Rightarrow> (Panic p, m)
                     | Return password32 \<Rightarrow>
                         (let user = user\<lparr>Password := password32\<rparr>;
                              m' = snd (Insert m ''user'' (marshal_User
                                     \<lparr>Username = Username user, Password = Password user,
                                      Salt = Salt user, Email = Email user, ID = oid,
                                      Firstname = Firstname user, Lastname = Lastname user\<rparr>))
                          in case One [(''_id'', BObjectId oid)] (C m' ''user'') of
                               Inl err \<Rightarrow> (Return (User_zero, Some (Error ''User not saved'')), m')
                             | Inr d \<Rightarrow> (Return (unmarshal_User d, None), m'))))))"

definition UserService_Delete :: "mongo \<Rightarrow> User \<Rightarrow> error option \<times> mongo" where
  "UserService_Delete m user =
     Remove m ''user'' [(''_id'', BObjectId (User.ID user)), (''username'', BString (Username user))]"

text \<open>
  The body of \<open>Update\<close>, and the function with its deferred \<open>recover\<close>. \<open>order\<close> is
  the iteration order of the \<open>$set\<close> map in this call.
\<close>

definition UserService_Update_body ::
  "HashPassword_t \<Rightarrow> error + string \<Rightarrow> nat list \<Rightarrow> mongo \<Rightarrow> string \<Rightarrow> User
     \<Rightarrow> (error option) outcome \<times> mongo" where
  "UserService_Update_body HashPassword GenerateSalt order m ident user =
     (case GenerateSalt of
        Inl err \<Rightarrow> (Return (Some err), m)
      | Inr salt \<Rightarrow>
          (case slice_to 32 salt of
             Panic p \<Rightarrow> (Panic p, m)
           | Return salt32 \<Rightarrow>
               (let user = user\<lparr>Salt := salt32\<rparr> in
                case HashPassword (Password user) salt of
                  Inl err \<Rightarrow> (Return (Some err), m)
                | Inr password \<Rightarrow>
                    (case slice_to 32 password of
                       Panic p \<Rightarrow> (Panic p, m)
                     | Return password32 \<Rightarrow>
                         (let user = user\<lparr>Password := password32\<rparr> in
                          case ObjectIdHex ident of
                            Panic p \<Rightarrow> (Panic p, m)
                          | Return oid \<Rightarrow>
                              (case Update m ''user'' [(''_id'', BObjectId oid)]
                                      [(''$set'', BDoc (bson_M order
                                          [(''username'', BString (Username user)),
                                           (''lastname'', BString (Lastname user)),
                                           (''firstname'', BString (Firstname user)),
                                           (''password'', BString (Password user)),
                                           (''salt'', BString (Salt user)),
                                           (''email'', BString (Email user))]))] of
                                 (err, m') \<Rightarrow> (Return err, m')))))))"

definition UserService_Update ::
  "HashPassword_t \<Rightarrow> error + string \<Rightarrow> nat list \<Rightarrow> mongo \<Rightarrow> string \<Rightarrow> User
     \<Rightarrow> (error option) outcome \<times> mongo" where
  "UserService_Update HashPassword GenerateSalt order m ident user =
     (case UserService_Update_body HashPassword GenerateSalt order m ident user of
        (Panic p, m') \<Rightarrow> (Return (Some (Error ''Incorrect ID'')), m')
      | (Return err, m') \<Rightarrow> (Return err, m'))"

section \<open>The article service\<close>

text \<open>
  Modelled from the spec: the declarations of \<open>model.Tag\<close>, \<open>model.Image\<close> and
  \<open>model.Vignette\<close> are not among the source files. The specification calls them a list of
  tags, an image reference and a thumbnail reference. A tag is held as the BSON value it
  marshals to, an image and a thumbnail as the document of their fields (the empty
  document for the zero value).
\<close>

type_synonym Tag = bson

type_synonym Image = document

type_synonym Vignette = document

text \<open>
  \<open>model.Article\<close> as declared in \<open>model/article.go\<close>; the driver names each field by its
  lower-cased name, and \<open>ID\<close> by its tag \<open>_id\<close>.
\<close>

record Article =
  ID :: string
  Titre :: string
  Pretty :: string
  Texte :: string
  Tags :: "Tag list"
  Image :: Image
  Vignette :: Vignette
  Status :: string
  Create :: Time
  Modified :: Time
  UserRef :: DBRef

definition Article_zero :: Article where
  "Article_zero = \<lparr>ID = [], Titre = [], Pretty = [], Texte = [], Tags = [], Image = [],
     Vignette = [], Status = [], Create = Time0, Modified = Time0, UserRef = DBRef_zero\<rparr>"

definition marshal_Time :: "Time \<Rightarrow> bson" where
  "marshal_Time t = BTime (t div 1000000)"

definition marshal_Article :: "Article \<Rightarrow> document" where
  "marshal_Article a =
     [(''_id'', BObjectId (Article.ID a)), (''titre'', BString (Titre a)),
      (''pretty'', BString (Pretty a)), (''texte'', BString (Texte a)),
      (''tags'', BArray (Tags a)), (''image'', BDoc (Image a)),
      (''vignette'', BDoc (Vignette a)), (''status'', BString (Status a)),
      (''create'', marshal_Time (Create a)), (''modified'', marshal_Time (Modified a)),
      (''userref'', BDoc (marshal_DBRef (UserRef a)))]"

definition unmarshal_DBRef :: "document \<Rightarrow> DBRef" where
  "unmarshal_DBRef d =
     \<lparr>Collection = string_field d ''$ref'', Id = any_field d ''$id'',
      Database = string_field d ''$db''\<rparr>"

definition unmarshal_Article :: "document \<Rightarrow> Article" where
  "unmarshal_Article d =
     \<lparr>ID = string_field d ''_id'', Titre = string_field d ''titre'',
      Pretty = string_field d ''pretty'', Texte = string_field d ''texte'',
      Tags = array_field d ''tags'', Image = doc_field d ''image'',
      Vignette = doc_field d ''vignette'', Status = string_field d ''status'',
      Create = time_field d ''create'', Modified = time_field d ''modified'',
      UserRef = unmarshal_DBRef (doc_field d ''userref'')\<rparr>"

text \<open>
  \<open>utils.SanitizeTitle\<close> (of \<open>lunarc/utils\<close>, outside this repository) is a parameter of
  the service functions.
\<close>

definition ArticleService_GetByID :: "mongo \<Rightarrow> string \<Rightarrow> (Article \<times> error option) outcome" where
  "ArticleService_GetByID m ident =
     (case ObjectIdHex ident of
        Panic p \<Rightarrow> Panic p
      | Return oid \<Rightarrow>
          (case One [(''_id'', BObjectId oid)] (C m ''article'') of
             Inl err \<Rightarrow> Return (Article_zero, Some (Error ''No article''))
           | Inr d \<Rightarrow> Return (unmarshal_Article d, None)))"

definition ArticleService_GetByPretty :: "mongo \<Rightarrow> string \<Rightarrow> Article \<times> error option" where
  "ArticleService_GetByPretty m pretty =
     (case One [(''pretty'', BString pretty)] (C m ''article'') of
        Inl err \<Rightarrow> (Article_zero, Some (Error ''No article''))
      | Inr d \<Rightarrow> (unmarshal_Article d, None))"

definition ArticleService_Add ::
  "(string \<Rightarrow> string) \<Rightarrow> string \<Rightarrow> mongo \<Rightarrow> Article \<Rightarrow> (Article \<times> error option) \<times> mongo" where
  "ArticleService_Add SanitizeTitle NewObjectId m article =
     (let oid = NewObjectId;
          pretty = SanitizeTitle (Titre article);
          m' = snd (Insert m ''article'' (marshal_Article
                 \<lparr>ID = oid, Titre = Titre article, Pretty = pretty, Texte = Texte article,
                  Tags = Tags article, Image = Image article, Vignette = Vignette article,
                  Status = Status article, Create = Create article, Modified = Create article,
                  UserRef = \<lparr>Collection = ''user'', Id = Id (UserRef article), Database = []\<rparr>\<rparr>))
      in case One [(''_id'', BObjectId oid)] (C m' ''article'') of
           Inl err \<Rightarrow> ((Article_zero, Some err), m')
         | Inr d \<Rightarrow> ((unmarshal_Article d, None), m'))"

definition ArticleService_FindByStatus :: "mongo \<Rightarrow> string \<Rightarrow> Article list \<times> error option" where
  "ArticleService_FindByStatus m status =
     (case All [(''status'', BString status)] (C m ''article'') of
        Inl err \<Rightarrow> ([], Some (Error ''Error in FindByStatus''))
      | Inr ds \<Rightarrow> (map unmarshal_Article ds, None))"

definition ArticleService_FindAll :: "mongo \<Rightarrow> Article list \<times> error option" where
  "ArticleService_FindAll m =
     (case All [] (C m ''article'') of
        Inl err \<Rightarrow> ([], Some (Error ''Error in FindAll''))
      | Inr ds \<Rightarrow> (map unmarshal_Article ds, None))"

definition ArticleService_Delete :: "mongo \<Rightarrow> Article \<Rightarrow> error option \<times> mongo" where
  "ArticleService_Delete m article =
     Remove m ''article''
       [(''_id'', BObjectId (Article.ID article)), (''titre'', BString (Titre article))]"

text \<open>
  \<open>set_order\<close> and \<open>ref_order\<close> are the iteration orders, in this call, of the \<open>$set\<close>
  map and of the map of the author reference.
\<close>

definition ArticleService_Update ::
  "(string \<Rightarrow> string) \<Rightarrow> nat list \<Rightarrow> nat list \<Rightarrow> mongo \<Rightarrow> string \<Rightarrow> Article
     \<Rightarrow> (error option) outcome \<times> mongo" where
  "ArticleService_Update SanitizeTitle set_order ref_order m ident article =
     (let pretty = SanitizeTitle (Titre article) in
      case ObjectIdHex ident of
        Panic p \<Rightarrow> (Panic p, m)
      | Return oid \<Rightarrow>
          (case Update m ''article'' [(''_id'', BObjectId oid)]
                  [(''$set'', BDoc (bson_M set_order
                      [(''titre'', BString (Titre article)),
                       (''pretty'', BString pretty),
                       (''image'', BDoc (Image article)),
                       (''vignette'', BDoc (Vignette article)),
                       (''texte'', BString (Texte article)),
                       (''status'', BString (Status article)),
                       (''modified'', marshal_Time (Modified article)),
                       (''tags'', BArray (Tags article)),
                       (''userref'', BDoc (bson_M ref_order
                          [(''$ref'', BString (Collection (UserRef article))),
                           (''$id'', Id (UserRef article))]))]))] of
             (err, m') \<Rightarrow> (Return err, m')))"

section \<open>Sample collaborators and data\<close>

text \<open>
  Stand-ins for the collaborators outside this repository, and concrete inputs and
  database states, on which the theorems below are instantiated.
\<close>

definition sample_HashPassword :: HashPassword_t where
  "sample_HashPassword password salt = Inr (take 32 (rev password @ salt))"

definition sample_CheckPassword :: CheckPassword_t where
  "sample_CheckPassword password salt hash = Inr (take 32 (rev password @ salt) = hash)"

definition sample_SanitizeTitle :: "string \<Rightarrow> string" where
  "sample_SanitizeTitle title = map (\<lambda>c. if c = CHR '' '' then CHR ''-'' else c) title"

definition sample_salt :: string where
  "sample_salt = ''0123456789abcdef0123456789abcdef''"

definition sample_oid :: string where
  "sample_oid = ''abcdefghijkl''"

definition sample_user :: User where
  "sample_user = \<lparr>Username = ''bob'', Password = ''secret'', Salt = [], Email = ''bob@example.org'',
     ID = [], Firstname = ''Bob'', Lastname = ''Martin''\<rparr>"

definition sample_article :: Article where
  "sample_article = \<lparr>ID = [], Titre = ''Hello World'', Pretty = ''caller-slug'', Texte = ''text'',
     Tags = [], Image = [], Vignette = [], Status = ''draft'', Create = 1500000000123456789,
     Modified = 42, UserRef = \<lparr>Collection = ''people'', Id = BString ''bob'', Database = []\<rparr>\<rparr>"

definition mongo_empty :: mongo where
  "mongo_empty = \<lparr>Safe = True, Database = (\<lambda>c. [])\<rparr>"

definition mongo_bob :: mongo where
  "mongo_bob = snd (UserService_Add sample_HashPassword sample_oid (Inr sample_salt) mongo_empty sample_user)"

definition mongo_bob_new :: mongo where
  "mongo_bob_new = snd (UserService_Update sample_HashPassword (Inr sample_salt) [5, 0, 2] mongo_bob
     ''6162636465666768696a6b6c'' (sample_user\<lparr>Password := ''new''\<rparr>))"

definition mongo_hello :: mongo where
  "mongo_hello = snd (ArticleService_Add sample_SanitizeTitle sample_oid mongo_empty sample_article)"

definition mongo_second :: mongo where
  "mongo_second = snd (ArticleService_Update sample_SanitizeTitle [4, 0, 7] [1] mongo_hello
     ''6162636465666768696a6b6c''
     (sample_article\<lparr>Titre := ''Second title'', Modified := 1600000000000000000\<rparr>))"

section \<open>Object ids in hex\<close>

lemma hextable_nth: "n < 16 \<Longrightarrow> fromHexChar (hextable ! n) = Some n"
  by (simp add: hextable_def fromHexChar_def nth_Cons' less_Suc_eq numeral_eq_Suc; force)

lemma DecodeString_EncodeToString: "DecodeString (EncodeToString bs) = Some bs"
proof (induction bs)
  case Nil
  show ?case by simp
next
  case (Cons b bs)
  have hi: "(of_char b :: nat) div 16 < 16"
    by (simp add: less_mult_imp_div_less)
  have byte: "char_of ((of_char b :: nat) div 16 * 16 + of_char b mod 16) = b"
    by simp
  show ?case
    using Cons byte by (simp add: hextable_nth hi)
qed

lemma DecodeString_length: "DecodeString s = Some d \<Longrightarrow> length s = 2 * length d"
  by (induction s arbitrary: d rule: DecodeString.induct) (auto split: option.splits)

lemma fromHexChar_digit: "fromHexChar c \<noteq> None \<longleftrightarrow> is_hex_digit c"
proof -
  have "is_hex_digit c \<longleftrightarrow> (of_char c :: nat) \<in> of_char ` set ''0123456789abcdefABCDEF''"
    unfolding is_hex_digit_def by (rule inj_image_mem_iff [OF inj_of_char, symmetric])
  also have "\<dots> \<longleftrightarrow> (of_char c :: nat) \<in>
      {48, 49, 50, 51, 52, 53, 54, 55, 56, 57, 97, 98, 99, 100, 101, 102, 65, 66, 67, 68, 69, 70}"
    by simp
  also have "\<dots> \<longleftrightarrow> (48 \<le> (of_char c :: nat) \<and> (of_char c :: nat) \<le> 57)
      \<or> (97 \<le> (of_char c :: nat) \<and> (of_char c :: nat) \<le> 102)
      \<or> (65 \<le> (of_char c :: nat) \<and> (of_char c :: nat) \<le> 70)"
    by (simp; arith)
  also have "\<dots> \<longleftrightarrow> fromHexChar c \<noteq> None"
    by (simp add: fromHexChar_def Let_def)
  finally show ?thesis by simp
qed

lemma DecodeString_defined:
  "(\<exists>d. DecodeString s = Some d) \<longleftrightarrow> even (length s) \<and> list_all is_hex_digit s"
proof (induction s rule: DecodeString.induct)
  case 1
  show ?case by simp
next
  case (2 a)
  show ?case by simp
next
  case (3 a b cs)
  show ?case
  proof (cases "fromHexChar a")
    case None
    then have "\<not> is_hex_digit a" using fromHexChar_digit [of a] by simp
    with None show ?thesis by simp
  next
    case (Some x)
    note a = this
    then have ha: "is_hex_digit a" using fromHexChar_digit [of a] by simp
    show ?thesis
    proof (cases "fromHexChar b")
      case None
      then have "\<not> is_hex_digit b" using fromHexChar_digit [of b] by simp
      with a None show ?thesis by simp
    next
      case (Some y)
      then have hb: "is_hex_digit b" using fromHexChar_digit [of b] by simp
      from "3.IH" [OF a Some] a Some ha hb show ?thesis
        by (cases "DecodeString cs") auto
    qed
  qed
qed

text \<open>\<open>ObjectIdHex\<close> returns exactly on the identifiers the specification calls valid.\<close>

lemma ObjectIdHex_valid: "(\<exists>oid. ObjectIdHex s = Return oid) \<longleftrightarrow> valid_hex24 s"
proof
  assume "\<exists>oid. ObjectIdHex s = Return oid"
  then obtain d where d: "DecodeString s = Some d" "length d = 12"
    by (auto simp: ObjectIdHex_def split: option.splits if_splits)
  from d(1) have "list_all is_hex_digit s" using DecodeString_defined [of s] by blast
  moreover from d have "length s = 24" using DecodeString_length [of s d] by simp
  ultimately show "valid_hex24 s" by (simp add: valid_hex24_def)
next
  assume v: "valid_hex24 s"
  then have "even (length s)" "list_all is_hex_digit s" by (simp_all add: valid_hex24_def)
  then obtain d where d: "DecodeString s = Some d" using DecodeString_defined [of s] by blast
  with v have "length d = 12" using DecodeString_length [of s d] by (simp add: valid_hex24_def)
  with d show "\<exists>oid. ObjectIdHex s = Return oid" by (simp add: ObjectIdHex_def)
qed

lemma ObjectIdHex_invalid: "\<not> valid_hex24 s \<Longrightarrow> ObjectIdHex s = Panic (InvalidObjectIdHex s)"
  using ObjectIdHex_valid [of s] by (auto simp: ObjectIdHex_def split: option.splits)

lemma ObjectIdHex_length: "ObjectIdHex s = Return oid \<Longrightarrow> length oid = 12"
  by (auto simp: ObjectIdHex_def split: option.splits if_splits)

lemma ObjectIdHex_Hex: "length oid = 12 \<Longrightarrow> ObjectIdHex (Hex oid) = Return oid"
  by (simp add: ObjectIdHex_def Hex_def DecodeString_EncodeToString)

section \<open>Iteration order of maps\<close>

lemma mset_remove_nth:
  "i < length xs \<Longrightarrow> mset (take i xs @ drop (Suc i) xs) + {#xs ! i#} = mset xs"
proof -
  assume "i < length xs"
  then have "xs = take i xs @ xs ! i # drop (Suc i) xs" by (rule id_take_nth_drop)
  then have "mset xs = mset (take i xs @ xs ! i # drop (Suc i) xs)" by simp
  then show ?thesis by simp
qed

text \<open>Whatever the choice, the document holds the pairs of the map literal, each once.\<close>

lemma mset_bson_M: "mset (bson_M order kvs) = mset kvs"
proof (induction order kvs rule: bson_M.induct)
  case (1 order)
  show ?case by simp
next
  case (2 kv kvs)
  show ?case by simp
next
  case (3 k order kv kvs)
  let ?xs = "kv # kvs"
  let ?i = "k mod length ?xs"
  have i: "?i < length ?xs" by simp
  from 3 [of ?i] have "mset (bson_M order (take ?i ?xs @ drop (Suc ?i) ?xs))
      = mset (take ?i ?xs @ drop (Suc ?i) ?xs)" by simp
  then have "mset (bson_M (k # order) ?xs) = mset (take ?i ?xs @ drop (Suc ?i) ?xs) + {#?xs ! ?i#}"
    by (simp add: Let_def del: take_Suc_Cons drop_Suc_Cons nth_Cons_Suc mset_append)
  also have "\<dots> = mset ?xs" using i by (rule mset_remove_nth)
  finally show ?case .
qed

text \<open>And every order of the pairs comes from some choice.\<close>

lemma bson_M_every_order: "mset ys = mset kvs \<Longrightarrow> \<exists>order. bson_M order kvs = ys"
proof (induction ys arbitrary: kvs)
  case Nil
  then have "kvs = []" by simp
  then show ?case by simp
next
  case (Cons y ys)
  then have "y \<in> set kvs" by (metis list.set_intros(1) mset_eq_setD)
  then obtain i where i: "i < length kvs" "kvs ! i = y" by (auto simp: in_set_conv_nth)
  let ?rest = "take i kvs @ drop (Suc i) kvs"
  from i have "mset ?rest + {#y#} = mset kvs" using mset_remove_nth [of i kvs] by simp
  with Cons.prems [symmetric] have "add_mset y (mset ?rest) = add_mset y (mset ys)" by simp
  then have "mset ys = mset ?rest" by simp
  from Cons.IH [OF this] obtain order where o: "bson_M order ?rest = ys" by blast
  from i obtain kv kvs' where c: "kvs = kv # kvs'" by (cases kvs) auto
  from i have "i mod length kvs = i" by simp
  with o i c have "bson_M (i # order) kvs = y # ys"
    by (simp add: Let_def del: take_Suc_Cons drop_Suc_Cons nth_Cons_Suc)
  then show ?case by blast
qed

lemma set_bson_M: "set (bson_M order kvs) = set kvs"
  using mset_bson_M [of order kvs] by (rule mset_eq_setD)

lemma distinct_bson_M: "distinct (map fst (bson_M order kvs)) \<longleftrightarrow> distinct (map fst kvs)"
proof -
  have "mset (map fst (bson_M order kvs)) = mset (map fst kvs)"
    by (simp add: mset_bson_M)
  then show ?thesis by (rule mset_eq_imp_distinct_iff)
qed

lemma map_of_bson_M: "distinct (map fst kvs) \<Longrightarrow> map_of (bson_M order kvs) = map_of kvs"
  by (simp add: map_of_inject_set distinct_bson_M set_bson_M)

lemma valid_bson_M: "list_all valid_bson (map snd (bson_M order kvs)) \<longleftrightarrow> list_all valid_bson (map snd kvs)"
  by (simp add: list_all_iff set_bson_M)

lemma bson_M_single: "bson_M order [a] = [a]"
  by (cases order) (simp_all add: Let_def)

lemma bson_M_pair: "bson_M order [a, b] = [a, b] \<or> bson_M order [a, b] = [b, a]"
proof (cases order)
  case Nil
  then show ?thesis by simp
next
  case (Cons k ks)
  have "k mod Suc (Suc 0) = 0 \<or> k mod Suc (Suc 0) = Suc 0" by arith
  then show ?thesis
  proof
    assume "k mod Suc (Suc 0) = 0"
    with Cons show ?thesis by (simp add: Let_def bson_M_single)
  next
    assume "k mod Suc (Suc 0) = Suc 0"
    with Cons show ?thesis by (simp add: Let_def bson_M_single)
  qed
qed

text \<open>The order of a selector changes neither what it matches nor what \<open>Remove\<close> does.\<close>

lemma matches_bson_M: "matches (bson_M order selector) = matches selector"
  by (rule ext) (simp add: matches_def list_all_iff set_bson_M)

lemma Remove_bson_M: "Remove m c (bson_M order selector) = Remove m c selector"
  by (simp add: Remove_def matches_bson_M valid_doc_def valid_bson_M)

text \<open>A \<open>$set\<close> of fields with distinct names sets each field, in whatever order.\<close>

lemma map_of_set_fields:
  "map_of (foldl (\<lambda>d (k, v). AList.update k v d) doc changes) = map_of doc ++ map_of (rev changes)"
  by (induction changes arbitrary: doc) (auto simp: update_conv')

lemma map_of_rev_distinct: "distinct (map fst kvs) \<Longrightarrow> map_of (rev kvs) = map_of kvs"
  by (simp add: map_of_inject_set rev_map [symmetric])

lemma map_of_apply_update:
  assumes "distinct (map fst changes)"
  shows "map_of (apply_update [(''$set'', BDoc (bson_M order changes))] doc)
    = map_of doc ++ map_of changes"
proof -
  from assms have d: "distinct (map fst (bson_M order changes))" by (simp add: distinct_bson_M)
  have "map_of (apply_update [(''$set'', BDoc (bson_M order changes))] doc)
      = map_of doc ++ map_of (rev (bson_M order changes))"
    by (simp add: apply_update_def map_of_set_fields)
  also have "\<dots> = map_of doc ++ map_of changes"
    using d assms by (simp add: map_of_rev_distinct map_of_bson_M)
  finally show ?thesis .
qed

section \<open>The store operations\<close>

lemma One_Inr: "One sel docs = Inr d \<Longrightarrow> valid_doc sel \<and> find (matches sel) docs = Some d"
  by (auto simp: One_def split: if_splits option.splits)

lemma valid_username_selector: "valid_doc [(''username'', BString u)]"
  by (simp add: valid_doc_def)

lemma sample_docs_bob: "C mongo_bob ''user'' =
  [[(''username'', BString ''bob''),
    (''password'', BString ''terces0123456789abcdef0123456789''),
    (''salt'', BString ''0123456789abcdef0123456789abcdef''),
    (''email'', BString ''bob@example.org''),
    (''_id'', BObjectId ''abcdefghijkl''),
    (''firstname'', BString ''Bob''),
    (''lastname'', BString ''Martin'')]]"
  by (simp add: mongo_bob_def UserService_Add_def sample_HashPassword_def sample_salt_def
      sample_oid_def sample_user_def mongo_empty_def slice_to_def Insert_def One_def C_def
      valid_doc_def marshal_User_def matches_def Let_def)

lemma sample_docs_hello: "C mongo_hello ''article'' =
  [[(''_id'', BObjectId ''abcdefghijkl''),
    (''titre'', BString ''Hello World''),
    (''pretty'', BString ''Hello-World''),
    (''texte'', BString ''text''),
    (''tags'', BArray []),
    (''image'', BDoc []),
    (''vignette'', BDoc []),
    (''status'', BString ''draft''),
    (''create'', BTime 1500000000123),
    (''modified'', BTime 1500000000123),
    (''userref'', BDoc [(''$ref'', BString ''user''), (''$id'', BString ''bob'')])]]"
  by (simp add: mongo_hello_def ArticleService_Add_def sample_SanitizeTitle_def
      sample_oid_def sample_article_def mongo_empty_def Insert_def One_def C_def
      valid_doc_def marshal_Article_def marshal_DBRef_def marshal_Time_def matches_def Let_def)

lemma sample_xyz_invalid: "\<not> valid_hex24 ''xyz''"
  by (simp add: valid_hex24_def)

lemma valid_id_field_selector:
  "valid_doc [(''_id'', BObjectId oid), (k, BString s)] \<longleftrightarrow> length oid = 12"
  by (simp add: valid_doc_def)

lemma Remove_no_match:
  "\<not> list_ex (matches sel) (C m c) \<Longrightarrow>
     Remove m c sel = (if valid_doc sel then (if Safe m then Some ErrNotFound else None) else Some ErrMarshal, m)"
  by (simp add: Remove_def)

lemma sample_no_alice:
  "\<not> list_ex (matches [(''_id'', BObjectId (User.ID (sample_user\<lparr>User.ID := sample_oid, Username := ''alice''\<rparr>))),
       (''username'', BString (Username (sample_user\<lparr>User.ID := sample_oid, Username := ''alice''\<rparr>)))])
     (C mongo_bob ''user'')"
  by (simp add: sample_docs_bob matches_def)

lemma Safe_mongo_bob: "Safe mongo_bob"
  by (simp add: mongo_bob_def UserService_Add_def sample_HashPassword_def sample_salt_def
      sample_oid_def sample_user_def mongo_empty_def slice_to_def Insert_def One_def C_def
      valid_doc_def marshal_User_def matches_def Let_def)

lemma find_list_ex: "list_ex p xs \<longleftrightarrow> find p xs \<noteq> None"
  by (induction xs) auto

lemma update_first_find:
  "find p xs = Some d \<Longrightarrow> update_first p f xs = update_first p (\<lambda>_. f d) xs"
  by (induction xs) auto

lemma update_first_new:
  "x \<in> set (update_first p f xs) \<Longrightarrow> x \<notin> set xs \<Longrightarrow> \<exists>y. find p xs = Some y \<and> x = f y"
  by (induction xs) (auto split: if_splits)

lemma remove_first_subset: "set (remove_first p xs) \<subseteq> set xs"
  by (induction xs) auto

lemma Insert_new:
  "d \<in> set (C (snd (Insert m c doc)) c') \<Longrightarrow> d \<notin> set (C m c') \<Longrightarrow> d = doc \<and> c' = c"
  by (auto simp: Insert_def C_def split: if_splits)

lemma Update_new:
  "d \<in> set (C (snd (Update m c sel upd)) c') \<Longrightarrow> d \<notin> set (C m c') \<Longrightarrow>
     \<exists>d0. find (matches sel) (C m c) = Some d0 \<and> d = apply_update upd d0 \<and> c' = c
       \<and> valid_doc sel \<and> valid_doc upd"
  by (auto simp: Update_def C_def split: if_splits dest: update_first_new)

lemma Remove_subset: "set (C (snd (Remove m c sel)) c') \<subseteq> set (C m c')"
  by (auto simp: Remove_def C_def split: if_splits dest: subsetD [OF remove_first_subset])

lemma find_Some_mem: "find p xs = Some x \<Longrightarrow> x \<in> set xs \<and> p x"
  by (induction xs) (auto split: if_splits)

lemma One_id:
  assumes "One [(''_id'', BObjectId oid)] docs = Inr d"
  shows "length oid = 12 \<and> d \<in> set docs \<and> map_of d ''_id'' = Some (BObjectId oid)"
proof -
  from assms have v: "valid_doc [(''_id'', BObjectId oid)]"
    and f: "find (matches [(''_id'', BObjectId oid)]) docs = Some d"
    using One_Inr [of "[(''_id'', BObjectId oid)]" docs d] by blast+
  from v have "length oid = 12" by (simp add: valid_doc_def)
  moreover from f have "d \<in> set docs" "matches [(''_id'', BObjectId oid)] d"
    using find_Some_mem [of "matches [(''_id'', BObjectId oid)]" docs d] by blast+
  ultimately show ?thesis by (simp add: matches_def)
qed

section \<open>UserService.Get: the two failures\<close>

text \<open>
  C1 (as amended). \<open>Get\<close> fails, returning the zero user, both when no user document has
  the username and when the password check answers false, but with different errors: the
  driver's \<open>ErrNotFound\<close> in the first case and \<open>errors.New("Invalid password")\<close> in the
  second (an error of \<open>CheckPassword\<close> itself is returned as it is). The error therefore
  tells which of the two checks failed.
\<close>

theorem UserService_Get_errors:
  "(find (matches [(''username'', BString username)]) (C m ''user'') = None \<longrightarrow>
      UserService_Get CheckPassword m username password = (User_zero, Some ErrNotFound))
   \<and> (find (matches [(''username'', BString username)]) (C m ''user'') = Some d \<longrightarrow>
        CheckPassword password (string_field d ''salt'') (string_field d ''password'') = Inr False \<longrightarrow>
      UserService_Get CheckPassword m username password = (User_zero, Some (Error ''Invalid password'')))
   \<and> (find (matches [(''username'', BString username)]) (C m ''user'') = Some d \<longrightarrow>
        CheckPassword password (string_field d ''salt'') (string_field d ''password'') = Inl err \<longrightarrow>
      UserService_Get CheckPassword m username password = (User_zero, Some err))
   \<and> ErrNotFound \<noteq> Error ''Invalid password''"
  by (simp add: UserService_Get_def One_def valid_username_selector unmarshal_User_def)

theorem UserService_Get_errors_witness:
  "find (matches [(''username'', BString ''bob'')]) (C mongo_empty ''user'') = None
   \<and> UserService_Get sample_CheckPassword mongo_empty ''bob'' ''wrong'' = (User_zero, Some ErrNotFound)
   \<and> find (matches [(''username'', BString ''bob'')]) (C mongo_bob ''user'') = Some (hd (C mongo_bob ''user''))
   \<and> sample_CheckPassword ''wrong'' (string_field (hd (C mongo_bob ''user'')) ''salt'')
        (string_field (hd (C mongo_bob ''user'')) ''password'') = Inr False
   \<and> UserService_Get sample_CheckPassword mongo_bob ''bob'' ''wrong'' = (User_zero, Some (Error ''Invalid password''))"
proof -
  have a: "find (matches [(''username'', BString ''bob'')]) (C mongo_empty ''user'') = None"
    by (simp add: mongo_empty_def C_def)
  have b: "find (matches [(''username'', BString ''bob'')]) (C mongo_bob ''user'') = Some (hd (C mongo_bob ''user''))"
    by (simp add: sample_docs_bob matches_def)
  have c: "sample_CheckPassword ''wrong'' (string_field (hd (C mongo_bob ''user'')) ''salt'')
        (string_field (hd (C mongo_bob ''user'')) ''password'') = Inr False"
    by (simp add: sample_docs_bob string_field_def sample_CheckPassword_def)
  from UserService_Get_errors [where username = "''bob''" and m = mongo_empty
      and CheckPassword = sample_CheckPassword and password = "''wrong''"] a
  have 1: "UserService_Get sample_CheckPassword mongo_empty ''bob'' ''wrong'' = (User_zero, Some ErrNotFound)"
    by blast
  from UserService_Get_errors [where username = "''bob''" and m = mongo_bob
      and d = "hd (C mongo_bob ''user'')" and CheckPassword = sample_CheckPassword
      and password = "''wrong''"] b c
  have 2: "UserService_Get sample_CheckPassword mongo_bob ''bob'' ''wrong'' = (User_zero, Some (Error ''Invalid password''))"
    by blast
  from a b c 1 2 show ?thesis by blast
qed

text \<open>
  The claim as first stated, one undifferentiated error for both failures, does not hold:
  an unknown username and a wrong password give different errors.
\<close>

theorem UserService_Get_undifferentiated_counterexample:
  "snd (UserService_Get sample_CheckPassword mongo_empty ''bob'' ''wrong'') = Some ErrNotFound
   \<and> snd (UserService_Get sample_CheckPassword mongo_bob ''bob'' ''wrong'') = Some (Error ''Invalid password'')
   \<and> snd (UserService_Get sample_CheckPassword mongo_empty ''bob'' ''wrong'')
       \<noteq> snd (UserService_Get sample_CheckPassword mongo_bob ''bob'' ''wrong'')"
proof -
  have 1: "snd (UserService_Get sample_CheckPassword mongo_empty ''bob'' ''wrong'') = Some ErrNotFound"
    by (simp add: UserService_Get_def One_def valid_username_selector mongo_empty_def C_def)
  have 2: "snd (UserService_Get sample_CheckPassword mongo_bob ''bob'' ''wrong'') = Some (Error ''Invalid password'')"
    by (simp add: UserService_Get_def One_def valid_username_selector sample_docs_bob matches_def
        unmarshal_User_def string_field_def sample_CheckPassword_def)
  show ?thesis unfolding 1 2 by simp
qed

section \<open>Malformed identifiers\<close>

text \<open>
  C3 (as amended). For an identifier that is not a valid 24-hex-character value,
  \<open>UserService.GetByID\<close> returns the error "Incorrect ID", and \<open>UserService.Update\<close> returns
  "Incorrect ID" whenever salt generation and password hashing return no error. Those two
  steps run before the identifier is parsed, so their errors are returned instead when
  they fail. In no case does a panic escape from \<open>Update\<close>, and the store is unchanged.
\<close>

theorem malformed_id_Incorrect_ID:
  assumes "\<not> valid_hex24 ident"
  shows "UserService_GetByID m ident = Return (User_zero, Some (Error ''Incorrect ID''))
    \<and> (\<forall>p. fst (UserService_Update HashPassword GenerateSalt order m ident user) \<noteq> Panic p)
    \<and> (GenerateSalt = Inl err \<longrightarrow>
          UserService_Update HashPassword GenerateSalt order m ident user = (Return (Some err), m))
    \<and> (GenerateSalt = Inr salt \<and> 32 \<le> length salt \<and> HashPassword (Password user) salt = Inl err \<longrightarrow>
          UserService_Update HashPassword GenerateSalt order m ident user = (Return (Some err), m))
    \<and> (GenerateSalt = Inr salt \<and> HashPassword (Password user) salt = Inr h \<longrightarrow>
          UserService_Update HashPassword GenerateSalt order m ident user
            = (Return (Some (Error ''Incorrect ID'')), m))"
proof -
  from assms have p: "ObjectIdHex ident = Panic (InvalidObjectIdHex ident)"
    by (rule ObjectIdHex_invalid)
  have 1: "UserService_GetByID m ident = Return (User_zero, Some (Error ''Incorrect ID''))"
    by (simp add: UserService_GetByID_def UserService_GetByID_body_def p)
  have 2: "\<forall>p. fst (UserService_Update HashPassword GenerateSalt order m ident user) \<noteq> Panic p"
    by (auto simp: UserService_Update_def split: prod.splits outcome.splits)
  have 3: "GenerateSalt = Inl err \<longrightarrow>
          UserService_Update HashPassword GenerateSalt order m ident user = (Return (Some err), m)"
    by (simp add: UserService_Update_def UserService_Update_body_def)
  have 4: "GenerateSalt = Inr salt \<and> 32 \<le> length salt \<and> HashPassword (Password user) salt = Inl err \<longrightarrow>
          UserService_Update HashPassword GenerateSalt order m ident user = (Return (Some err), m)"
    by (simp add: UserService_Update_def UserService_Update_body_def slice_to_def)
  have 5: "GenerateSalt = Inr salt \<and> HashPassword (Password user) salt = Inr h \<longrightarrow>
          UserService_Update HashPassword GenerateSalt order m ident user
            = (Return (Some (Error ''Incorrect ID'')), m)"
    by (simp add: UserService_Update_def UserService_Update_body_def slice_to_def p)
  from 1 2 3 4 5 show ?thesis by blast
qed

theorem malformed_id_Incorrect_ID_witness:
  "\<not> valid_hex24 ''xyz''
   \<and> UserService_GetByID mongo_bob ''xyz'' = Return (User_zero, Some (Error ''Incorrect ID''))
   \<and> UserService_Update sample_HashPassword (Inr sample_salt) [5, 0, 2] mongo_bob ''xyz'' sample_user
        = (Return (Some (Error ''Incorrect ID'')), mongo_bob)"
proof -
  have h: "sample_HashPassword (Password sample_user) sample_salt = Inr (take 32 (rev (Password sample_user) @ sample_salt))"
    by (simp add: sample_HashPassword_def)
  from malformed_id_Incorrect_ID [OF sample_xyz_invalid, where m = mongo_bob
      and HashPassword = sample_HashPassword and GenerateSalt = "Inr sample_salt"
      and user = sample_user and salt = sample_salt and order = "[5, 0, 2]"
      and h = "take 32 (rev (Password sample_user) @ sample_salt)"] h sample_xyz_invalid
  show ?thesis by simp
qed

text \<open>
  The claim as first stated fails for \<open>Update\<close>: with a malformed identifier and a failing
  salt generator the result is the generator's error, not "Incorrect ID".
\<close>

theorem UserService_Update_malformed_id_counterexample:
  "\<not> valid_hex24 ''xyz''
   \<and> UserService_Update sample_HashPassword (Inl (Error ''rand'')) [] mongo_bob ''xyz'' sample_user
        = (Return (Some (Error ''rand'')), mongo_bob)
   \<and> Error ''rand'' \<noteq> Error ''Incorrect ID''"
  by (simp add: sample_xyz_invalid UserService_Update_def UserService_Update_body_def)

text \<open>
  C5. \<open>ArticleService.GetByID\<close> has no \<open>recover\<close>: on a malformed identifier the panic of
  \<open>bson.ObjectIdHex\<close> reaches the caller, while a well-formed identifier that is absent from
  the store gives the error "No article", and \<open>UserService.GetByID\<close> on the same malformed
  identifier returns "Incorrect ID".
\<close>

theorem ArticleService_GetByID_malformed_panics:
  "ArticleService_GetByID mongo_hello ''xyz'' = Panic (InvalidObjectIdHex ''xyz'')
   \<and> ArticleService_GetByID mongo_hello ''6162636465666768696a6b6d''
        = Return (Article_zero, Some (Error ''No article''))
   \<and> UserService_GetByID mongo_hello ''xyz'' = Return (User_zero, Some (Error ''Incorrect ID''))"
proof -
  have 1: "ArticleService_GetByID mongo_hello ''xyz'' = Panic (InvalidObjectIdHex ''xyz'')"
    by (simp add: ArticleService_GetByID_def ObjectIdHex_invalid [OF sample_xyz_invalid])
  have d: "ObjectIdHex ''6162636465666768696a6b6d'' = Return ''abcdefghijkm''"
    by (simp add: ObjectIdHex_def fromHexChar_def char_of_eq_iff)
  have 2: "ArticleService_GetByID mongo_hello ''6162636465666768696a6b6d''
        = Return (Article_zero, Some (Error ''No article''))"
    by (simp add: ArticleService_GetByID_def d One_def valid_doc_def sample_docs_hello matches_def)
  have 3: "UserService_GetByID mongo_hello ''xyz'' = Return (User_zero, Some (Error ''Incorrect ID''))"
    by (simp add: UserService_GetByID_def UserService_GetByID_body_def
        ObjectIdHex_invalid [OF sample_xyz_invalid])
  from 1 2 3 show ?thesis by simp
qed

text \<open>The same for every malformed identifier and every state of the store.\<close>

lemma ArticleService_GetByID_invalid:
  "\<not> valid_hex24 ident \<Longrightarrow> ArticleService_GetByID m ident = Panic (InvalidObjectIdHex ident)"
  by (simp add: ArticleService_GetByID_def ObjectIdHex_invalid)

section \<open>Delete with no matching document\<close>

text \<open>
  C4 (as amended). When no stored document matches the filter (identifier and username for
  a user, identifier and title for an article), \<open>Delete\<close> leaves the store unchanged and
  returns the result of the driver's \<open>Remove\<close> as it is: \<open>nil\<close> only when the session is
  not in safe mode, \<open>ErrNotFound\<close> in safe mode, and the marshalling error when the
  identifier is not a 12-byte object id. Repeating the call gives the same result.
\<close>

theorem Delete_no_match:
  "(\<not> list_ex (matches [(''_id'', BObjectId (User.ID user)), (''username'', BString (Username user))])
          (C m ''user'') \<longrightarrow>
      UserService_Delete m user
        = (if length (User.ID user) = 12 then (if Safe m then Some ErrNotFound else None)
           else Some ErrMarshal, m)
      \<and> UserService_Delete (snd (UserService_Delete m user)) user = UserService_Delete m user)
   \<and> (\<not> list_ex (matches [(''_id'', BObjectId (Article.ID article)), (''titre'', BString (Titre article))])
          (C m ''article'') \<longrightarrow>
      ArticleService_Delete m article
        = (if length (Article.ID article) = 12 then (if Safe m then Some ErrNotFound else None)
           else Some ErrMarshal, m)
      \<and> ArticleService_Delete (snd (ArticleService_Delete m article)) article
          = ArticleService_Delete m article)"
  by (simp add: UserService_Delete_def ArticleService_Delete_def Remove_no_match
      valid_id_field_selector)

theorem Delete_no_match_witness:
  "\<not> list_ex (matches [(''_id'', BObjectId (User.ID (sample_user\<lparr>User.ID := sample_oid, Username := ''alice''\<rparr>))),
       (''username'', BString (Username (sample_user\<lparr>User.ID := sample_oid, Username := ''alice''\<rparr>)))])
     (C mongo_bob ''user'')
   \<and> UserService_Delete mongo_bob (sample_user\<lparr>User.ID := sample_oid, Username := ''alice''\<rparr>)
       = (Some ErrNotFound, mongo_bob)
   \<and> \<not> list_ex (matches [(''_id'', BObjectId (Article.ID sample_article)), (''titre'', BString (Titre sample_article))])
     (C (mongo_empty\<lparr>Safe := False\<rparr>) ''article'')
   \<and> ArticleService_Delete (mongo_empty\<lparr>Safe := False\<rparr>) sample_article
       = (Some ErrMarshal, mongo_empty\<lparr>Safe := False\<rparr>)
   \<and> \<not> list_ex (matches [(''_id'', BObjectId (Article.ID (sample_article\<lparr>Article.ID := sample_oid\<rparr>))),
         (''titre'', BString (Titre (sample_article\<lparr>Article.ID := sample_oid\<rparr>)))])
     (C (mongo_empty\<lparr>Safe := False\<rparr>) ''article'')
   \<and> ArticleService_Delete (mongo_empty\<lparr>Safe := False\<rparr>) (sample_article\<lparr>Article.ID := sample_oid\<rparr>)
       = (None, mongo_empty\<lparr>Safe := False\<rparr>)"
proof -
  have e: "C (mongo_empty\<lparr>Safe := False\<rparr>) ''article'' = []"
    by (simp add: mongo_empty_def C_def)
  have a: "\<not> list_ex (matches [(''_id'', BObjectId (Article.ID sample_article)), (''titre'', BString (Titre sample_article))])
     (C (mongo_empty\<lparr>Safe := False\<rparr>) ''article'')"
    by (simp add: e)
  have b: "\<not> list_ex (matches [(''_id'', BObjectId (Article.ID (sample_article\<lparr>Article.ID := sample_oid\<rparr>))),
         (''titre'', BString (Titre (sample_article\<lparr>Article.ID := sample_oid\<rparr>)))])
     (C (mongo_empty\<lparr>Safe := False\<rparr>) ''article'')"
    by (simp add: e)
  from Delete_no_match [where m = mongo_bob
      and user = "sample_user\<lparr>User.ID := sample_oid, Username := ''alice''\<rparr>"] sample_no_alice
  have 1: "UserService_Delete mongo_bob (sample_user\<lparr>User.ID := sample_oid, Username := ''alice''\<rparr>)
       = (Some ErrNotFound, mongo_bob)"
    by (simp add: Safe_mongo_bob sample_oid_def)
  from Delete_no_match [where m = "mongo_empty\<lparr>Safe := False\<rparr>" and article = sample_article] a
  have 2: "ArticleService_Delete (mongo_empty\<lparr>Safe := False\<rparr>) sample_article
       = (Some ErrMarshal, mongo_empty\<lparr>Safe := False\<rparr>)"
    by (simp add: sample_article_def)
  from Delete_no_match [where m = "mongo_empty\<lparr>Safe := False\<rparr>"
      and article = "sample_article\<lparr>Article.ID := sample_oid\<rparr>"] b
  have 3: "ArticleService_Delete (mongo_empty\<lparr>Safe := False\<rparr>) (sample_article\<lparr>Article.ID := sample_oid\<rparr>)
       = (None, mongo_empty\<lparr>Safe := False\<rparr>)"
    by (simp add: sample_oid_def)
  from sample_no_alice a b 1 2 3 show ?thesis by blast
qed

text \<open>
  The claim as first stated, success on a filter that matches nothing, fails in safe mode:
  the identifier exists but the username differs, and \<open>Delete\<close> returns \<open>ErrNotFound\<close>,
  which a caller can tell from the \<open>nil\<close> of a performed deletion.
\<close>

theorem Delete_silent_counterexample:
  "\<not> list_ex (matches [(''_id'', BObjectId sample_oid), (''username'', BString ''alice'')])
       (C mongo_bob ''user'')
   \<and> UserService_Delete mongo_bob (sample_user\<lparr>User.ID := sample_oid, Username := ''alice''\<rparr>)
       = (Some ErrNotFound, mongo_bob)
   \<and> fst (UserService_Delete mongo_bob (sample_user\<lparr>User.ID := sample_oid\<rparr>)) = None"
proof -
  have 1: "\<not> list_ex (matches [(''_id'', BObjectId sample_oid), (''username'', BString ''alice'')])
       (C mongo_bob ''user'')"
    by (simp add: sample_docs_bob matches_def)
  have 2: "UserService_Delete mongo_bob (sample_user\<lparr>User.ID := sample_oid, Username := ''alice''\<rparr>)
       = (Some ErrNotFound, mongo_bob)"
    using 1 by (simp add: UserService_Delete_def Remove_def Safe_mongo_bob valid_doc_def sample_oid_def)
  have 3: "fst (UserService_Delete mongo_bob (sample_user\<lparr>User.ID := sample_oid\<rparr>)) = None"
    by (simp add: UserService_Delete_def Remove_def valid_doc_def sample_oid_def sample_user_def
        sample_docs_bob matches_def)
  from 1 2 3 show ?thesis by blast
qed

section \<open>Writes of the user service\<close>

text \<open>The \<open>$set\<close> document of \<open>UserService.Update\<close> sets six fields and keeps every other.\<close>

lemma user_set_fields:
  "map_of (apply_update
      [(''$set'', BDoc (bson_M order
          [(''username'', a), (''lastname'', b), (''firstname'', c),
           (''password'', p), (''salt'', s), (''email'', e)]))] d)
   = (map_of d)(''username'' \<mapsto> a, ''lastname'' \<mapsto> b, ''firstname'' \<mapsto> c,
        ''password'' \<mapsto> p, ''salt'' \<mapsto> s, ''email'' \<mapsto> e)"
  by (subst map_of_apply_update) (auto simp: fun_eq_iff map_add_def)

text \<open>When salt, hash and identifier are all good, \<open>Update\<close> is one call of the driver.\<close>

lemma UserService_Update_body_Return:
  assumes "GenerateSalt = Inr salt" "32 \<le> length salt"
    and "HashPassword (Password user) salt = Inr h" "32 \<le> length h"
    and "ObjectIdHex ident = Return oid"
  shows "UserService_Update HashPassword GenerateSalt order m ident user =
     (case Update m ''user'' [(''_id'', BObjectId oid)]
         [(''$set'', BDoc (bson_M order
            [(''username'', BString (Username user)),
             (''lastname'', BString (Lastname user)),
             (''firstname'', BString (Firstname user)),
             (''password'', BString (take 32 h)),
             (''salt'', BString (take 32 salt)),
             (''email'', BString (Email user))]))] of
       (err, m') \<Rightarrow> (Return err, m'))"
  using assms
  by (simp add: UserService_Update_def UserService_Update_body_def slice_to_def split: prod.splits)

text \<open>Otherwise \<open>Update\<close> returns an error and leaves the store as it was.\<close>

lemma UserService_Update_early:
  assumes "\<not> (\<exists>salt h oid. GenerateSalt = Inr salt \<and> 32 \<le> length salt
     \<and> HashPassword (Password user) salt = Inr h \<and> 32 \<le> length h
     \<and> ObjectIdHex ident = Return oid)"
  shows "\<exists>e. UserService_Update HashPassword GenerateSalt order m ident user = (Return (Some e), m)"
proof (cases GenerateSalt)
  case (Inl e)
  then show ?thesis by (simp add: UserService_Update_def UserService_Update_body_def)
next
  case (Inr salt)
  note salt = this
  show ?thesis
  proof (cases "32 \<le> length salt")
    case False
    with salt show ?thesis
      by (simp add: UserService_Update_def UserService_Update_body_def slice_to_def)
  next
    case True
    note len = this
    show ?thesis
    proof (cases "HashPassword (Password user) salt")
      case (Inl e)
      with salt len show ?thesis
        by (simp add: UserService_Update_def UserService_Update_body_def slice_to_def)
    next
      case (Inr h)
      note h = this
      show ?thesis
      proof (cases "32 \<le> length h")
        case False
        with salt len h show ?thesis
          by (simp add: UserService_Update_def UserService_Update_body_def slice_to_def)
      next
        case True
        with assms salt len h obtain p where "ObjectIdHex ident = Panic p"
          by (cases "ObjectIdHex ident") auto
        with salt len h True show ?thesis
          by (simp add: UserService_Update_def UserService_Update_body_def slice_to_def)
      qed
    qed
  qed
qed

lemma UserService_Update_reaches_store:
  assumes "UserService_Update HashPassword GenerateSalt order m ident user = (Return None, m')"
  shows "\<exists>salt h oid. GenerateSalt = Inr salt \<and> 32 \<le> length salt
     \<and> HashPassword (Password user) salt = Inr h \<and> 32 \<le> length h
     \<and> ObjectIdHex ident = Return oid"
proof (rule ccontr)
  assume "\<not> ?thesis"
  from UserService_Update_early [where HashPassword = HashPassword and GenerateSalt = GenerateSalt
      and user = user and ident = ident and m = m and order = order, OF this] assms
  show False by auto
qed

lemma UserService_Update_changes_store:
  assumes "C (snd (UserService_Update HashPassword GenerateSalt order m ident user)) c \<noteq> C m c"
  shows "\<exists>salt h oid. GenerateSalt = Inr salt \<and> 32 \<le> length salt
     \<and> HashPassword (Password user) salt = Inr h \<and> 32 \<le> length h
     \<and> ObjectIdHex ident = Return oid"
proof (rule ccontr)
  assume "\<not> ?thesis"
  from UserService_Update_early [where HashPassword = HashPassword and GenerateSalt = GenerateSalt
      and user = user and ident = ident and m = m and order = order, OF this] assms
  show False by auto
qed

lemma UserService_Add_store:
  "snd (UserService_Add HashPassword oid GenerateSalt m user) = m
   \<or> (\<exists>salt h. GenerateSalt = Inr salt \<and> 32 \<le> length salt
        \<and> HashPassword (Password user) salt = Inr h \<and> 32 \<le> length h
        \<and> snd (UserService_Add HashPassword oid GenerateSalt m user)
            = snd (Insert m ''user'' (marshal_User
                \<lparr>Username = Username user, Password = take 32 h, Salt = take 32 salt,
                 Email = Email user, ID = oid, Firstname = Firstname user,
                 Lastname = Lastname user\<rparr>)))"
proof (cases GenerateSalt)
  case (Inl e)
  then show ?thesis by (simp add: UserService_Add_def)
next
  case (Inr salt)
  note salt = this
  show ?thesis
  proof (cases "32 \<le> length salt")
    case False
    with salt show ?thesis by (simp add: UserService_Add_def slice_to_def)
  next
    case True
    note len = this
    show ?thesis
    proof (cases "HashPassword (Password user) salt")
      case (Inl e)
      with salt len show ?thesis by (simp add: UserService_Add_def slice_to_def)
    next
      case (Inr h)
      note h = this
      show ?thesis
      proof (cases "32 \<le> length h")
        case False
        with salt len h show ?thesis by (simp add: UserService_Add_def slice_to_def)
      next
        case True
        with salt len h show ?thesis
          by (simp add: UserService_Add_def slice_to_def Let_def split: sum.splits)
      qed
    qed
  qed
qed

lemma UserService_Add_password_only_hashed:
  "HashPassword p' salt = HashPassword (Password user) salt \<Longrightarrow>
     UserService_Add HashPassword oid (Inr salt) m (user\<lparr>Password := p'\<rparr>)
       = UserService_Add HashPassword oid (Inr salt) m user"
  by (simp add: UserService_Add_def Let_def split: outcome.splits sum.splits)

lemma UserService_Update_password_only_hashed:
  "HashPassword p' salt = HashPassword (Password user) salt \<Longrightarrow>
     UserService_Update HashPassword (Inr salt) order m ident (user\<lparr>Password := p'\<rparr>)
       = UserService_Update HashPassword (Inr salt) order m ident user"
  by (simp add: UserService_Update_def UserService_Update_body_def Let_def
      split: outcome.splits sum.splits)

text \<open>
  The success path of \<open>Update\<close>: salt, hash and identifier are good and a document has the
  identifier. The first such document is replaced; the new one has the six fields set and
  every other field as before.
\<close>

lemma UserService_Update_success:
  assumes g: "GenerateSalt = Inr salt" and ls: "32 \<le> length salt"
    and hp: "HashPassword (Password user) salt = Inr h" and lh: "32 \<le> length h"
    and ox: "ObjectIdHex ident = Return oid"
    and fd: "find (matches [(''_id'', BObjectId oid)]) (C m ''user'') = Some d"
  shows "\<exists>d'. UserService_Update HashPassword GenerateSalt order m ident user =
        (Return None, m\<lparr>Database := (Database m)
           (''user'' := update_first (matches [(''_id'', BObjectId oid)]) (\<lambda>_. d') (C m ''user''))\<rparr>)
      \<and> map_of d' = (map_of d)
          (''username'' \<mapsto> BString (Username user),
           ''lastname'' \<mapsto> BString (Lastname user),
           ''firstname'' \<mapsto> BString (Firstname user),
           ''password'' \<mapsto> BString (take 32 h),
           ''salt'' \<mapsto> BString (take 32 salt),
           ''email'' \<mapsto> BString (Email user))"
proof -
  let ?sel = "[(''_id'', BObjectId oid)]"
  let ?upd = "[(''$set'', BDoc (bson_M order
            [(''username'', BString (Username user)),
             (''lastname'', BString (Lastname user)),
             (''firstname'', BString (Firstname user)),
             (''password'', BString (take 32 h)),
             (''salt'', BString (take 32 salt)),
             (''email'', BString (Email user))]))]"
  from ox have len: "length oid = 12" by (rule ObjectIdHex_length)
  then have v: "valid_doc ?sel" "valid_doc ?upd" by (simp_all add: valid_doc_def valid_bson_M)
  from fd have ex: "list_ex (matches ?sel) (C m ''user'')" by (simp add: find_list_ex)
  from fd have uf: "update_first (matches ?sel) (apply_update ?upd) (C m ''user'')
      = update_first (matches ?sel) (\<lambda>_. apply_update ?upd d) (C m ''user'')"
    by (rule update_first_find)
  have "Update m ''user'' ?sel ?upd = (None, m\<lparr>Database := (Database m)
           (''user'' := update_first (matches ?sel) (\<lambda>_. apply_update ?upd d) (C m ''user''))\<rparr>)"
    by (simp only: Update_def v ex uf simp_thms if_True)
  then have "UserService_Update HashPassword GenerateSalt order m ident user =
        (Return None, m\<lparr>Database := (Database m)
           (''user'' := update_first (matches ?sel) (\<lambda>_. apply_update ?upd d) (C m ''user''))\<rparr>)"
    by (simp add: UserService_Update_body_Return [where HashPassword = HashPassword
        and GenerateSalt = GenerateSalt and user = user and salt = salt and h = h
        and ident = ident and oid = oid and order = order, OF g ls hp lh ox])
  moreover have "map_of (apply_update ?upd d) = (map_of d)
          (''username'' \<mapsto> BString (Username user),
           ''lastname'' \<mapsto> BString (Lastname user),
           ''firstname'' \<mapsto> BString (Firstname user),
           ''password'' \<mapsto> BString (take 32 h),
           ''salt'' \<mapsto> BString (take 32 salt),
           ''email'' \<mapsto> BString (Email user))"
    by (rule user_set_fields)
  ultimately show ?thesis by blast
qed

text \<open>
  The success path of \<open>Add\<close>: salt and hash are good and the new id is a 12-byte id not
  yet in the collection. One document is appended.
\<close>

lemma UserService_Add_success:
  assumes g: "GenerateSalt = Inr salt" and ls: "32 \<le> length salt"
    and hp: "HashPassword (Password user) salt = Inr h" and lh: "32 \<le> length h"
    and len: "length oid = 12"
    and fresh: "\<not> list_ex (\<lambda>d. map_of d ''_id'' = Some (BObjectId oid)) (C m ''user'')"
  shows "C (snd (UserService_Add HashPassword oid GenerateSalt m user)) ''user''
     = C m ''user'' @ [marshal_User
          \<lparr>Username = Username user, Password = take 32 h, Salt = take 32 salt,
           Email = Email user, ID = oid, Firstname = Firstname user,
           Lastname = Lastname user\<rparr>]"
proof -
  let ?doc = "marshal_User
          \<lparr>Username = Username user, Password = take 32 h, Salt = take 32 salt,
           Email = Email user, ID = oid, Firstname = Firstname user,
           Lastname = Lastname user\<rparr>"
  from g ls hp lh have "snd (UserService_Add HashPassword oid GenerateSalt m user)
      = snd (Insert m ''user'' ?doc)"
    by (simp add: UserService_Add_def slice_to_def Let_def split: sum.splits)
  moreover from len have "valid_doc ?doc" by (simp add: valid_doc_def marshal_User_def)
  moreover have "map_of ?doc ''_id'' = Some (BObjectId oid)" by (simp add: marshal_User_def)
  ultimately show ?thesis using fresh by (simp add: Insert_def C_def)
qed

lemma sample_ObjectIdHex: "ObjectIdHex ''6162636465666768696a6b6c'' = Return sample_oid"
  by (simp add: ObjectIdHex_def fromHexChar_def char_of_eq_iff sample_oid_def)

lemma sample_find_bob:
  "find (matches [(''_id'', BObjectId sample_oid)]) (C mongo_bob ''user'') = Some (hd (C mongo_bob ''user''))"
  by (simp add: sample_docs_bob matches_def sample_oid_def)

lemma sample_order_user: "bson_M [5, 0, 2] [a, b, c, d, e, f] = [f, a, d, b, c, e]"
  by (simp add: Let_def)

lemma sample_docs_bob_new: "C mongo_bob_new ''user'' =
  [[(''username'', BString ''bob''),
    (''password'', BString ''wen0123456789abcdef0123456789abc''),
    (''salt'', BString ''0123456789abcdef0123456789abcdef''),
    (''email'', BString ''bob@example.org''),
    (''_id'', BObjectId ''abcdefghijkl''),
    (''firstname'', BString ''Bob''),
    (''lastname'', BString ''Martin'')]]"
proof -
  have h: "Database mongo_bob ''user'' = C mongo_bob ''user''"
    by (simp add: C_def)
  show ?thesis
    unfolding mongo_bob_new_def
    by (simp add: UserService_Update_def UserService_Update_body_def slice_to_def
      sample_HashPassword_def sample_salt_def sample_user_def sample_ObjectIdHex
      sample_order_user Update_def valid_doc_def sample_oid_def apply_update_def matches_def
      h sample_docs_bob C_def [of "_\<lparr>Database := _\<rparr>"])
qed

text \<open>
  C7. Every call of \<open>UserService.Update\<close> that reaches the store has drawn a salt and hashed
  the supplied password field with it, whatever that field holds: a call that returns
  \<open>nil\<close>, or that changes the user collection, implies both. When salt (at least 32
  bytes), hash (at least 32 bytes) and identifier are good and a document has the
  identifier, the call returns \<open>nil\<close> and replaces the first such document by one in which
  exactly the fields username, lastname, firstname, password, salt and email are set (the
  password to the first 32 bytes of the hash, the salt to the first 32 bytes of the salt)
  and every other field is as before, in whatever order the \<open>$set\<close> map is marshalled.
\<close>

theorem UserService_Update_sets_fields:
  "(GenerateSalt = Inr salt \<and> 32 \<le> length salt
      \<and> HashPassword (Password user) salt = Inr h \<and> 32 \<le> length h
      \<and> ObjectIdHex ident = Return oid
      \<and> find (matches [(''_id'', BObjectId oid)]) (C m ''user'') = Some d \<longrightarrow>
    (\<exists>d'. UserService_Update HashPassword GenerateSalt order m ident user =
        (Return None, m\<lparr>Database := (Database m)
           (''user'' := update_first (matches [(''_id'', BObjectId oid)]) (\<lambda>_. d') (C m ''user''))\<rparr>)
      \<and> map_of d' = (map_of d)
          (''username'' \<mapsto> BString (Username user),
           ''lastname'' \<mapsto> BString (Lastname user),
           ''firstname'' \<mapsto> BString (Firstname user),
           ''password'' \<mapsto> BString (take 32 h),
           ''salt'' \<mapsto> BString (take 32 salt),
           ''email'' \<mapsto> BString (Email user))))
   \<and> (UserService_Update HashPassword GenerateSalt order m ident user = (Return None, m') \<longrightarrow>
        (\<exists>salt h. GenerateSalt = Inr salt \<and> HashPassword (Password user) salt = Inr h))
   \<and> (C (snd (UserService_Update HashPassword GenerateSalt order m ident user)) ''user'' \<noteq> C m ''user'' \<longrightarrow>
        (\<exists>salt h. GenerateSalt = Inr salt \<and> HashPassword (Password user) salt = Inr h))"
proof (intro conjI impI)
  assume "GenerateSalt = Inr salt \<and> 32 \<le> length salt
      \<and> HashPassword (Password user) salt = Inr h \<and> 32 \<le> length h
      \<and> ObjectIdHex ident = Return oid
      \<and> find (matches [(''_id'', BObjectId oid)]) (C m ''user'') = Some d"
  then show "\<exists>d'. UserService_Update HashPassword GenerateSalt order m ident user =
        (Return None, m\<lparr>Database := (Database m)
           (''user'' := update_first (matches [(''_id'', BObjectId oid)]) (\<lambda>_. d') (C m ''user''))\<rparr>)
      \<and> map_of d' = (map_of d)
          (''username'' \<mapsto> BString (Username user),
           ''lastname'' \<mapsto> BString (Lastname user),
           ''firstname'' \<mapsto> BString (Firstname user),
           ''password'' \<mapsto> BString (take 32 h),
           ''salt'' \<mapsto> BString (take 32 salt),
           ''email'' \<mapsto> BString (Email user))"
    using UserService_Update_success [where GenerateSalt = GenerateSalt and salt = salt
        and HashPassword = HashPassword and user = user and h = h and ident = ident
        and oid = oid and m = m and d = d and order = order]
    by blast
next
  assume "UserService_Update HashPassword GenerateSalt order m ident user = (Return None, m')"
  from UserService_Update_reaches_store [OF this]
  show "\<exists>salt h. GenerateSalt = Inr salt \<and> HashPassword (Password user) salt = Inr h"
    by blast
next
  assume "C (snd (UserService_Update HashPassword GenerateSalt order m ident user)) ''user'' \<noteq> C m ''user''"
  from UserService_Update_changes_store [OF this]
  show "\<exists>salt h. GenerateSalt = Inr salt \<and> HashPassword (Password user) salt = Inr h"
    by blast
qed

theorem UserService_Update_sets_fields_witness:
  "\<exists>d'. UserService_Update sample_HashPassword (Inr sample_salt) [5, 0, 2] mongo_bob
            ''6162636465666768696a6b6c'' (sample_user\<lparr>Password := ''new''\<rparr>)
          = (Return None, mongo_bob\<lparr>Database := (Database mongo_bob)(''user'' := [d'])\<rparr>)
     \<and> map_of d' ''password'' = Some (BString ''wen0123456789abcdef0123456789abc'')
     \<and> map_of d' ''salt'' = Some (BString sample_salt)
     \<and> map_of d' ''username'' = Some (BString ''bob'')
     \<and> map_of d' ''_id'' = Some (BObjectId sample_oid)"
proof -
  let ?user = "sample_user\<lparr>Password := ''new''\<rparr>"
  have hp: "sample_HashPassword (Password ?user) sample_salt = Inr ''wen0123456789abcdef0123456789abc''"
    by (simp add: sample_HashPassword_def sample_salt_def)
  have ls: "32 \<le> length sample_salt" by (simp add: sample_salt_def)
  have pre: "(Inr sample_salt :: error + string) = Inr sample_salt \<and> 32 \<le> length sample_salt
      \<and> sample_HashPassword (Password ?user) sample_salt = Inr ''wen0123456789abcdef0123456789abc''
      \<and> 32 \<le> length ''wen0123456789abcdef0123456789abc''
      \<and> ObjectIdHex ''6162636465666768696a6b6c'' = Return sample_oid
      \<and> find (matches [(''_id'', BObjectId sample_oid)]) (C mongo_bob ''user'') = Some (hd (C mongo_bob ''user''))"
    using hp ls sample_ObjectIdHex sample_find_bob by simp
  from UserService_Update_sets_fields [where GenerateSalt = "Inr sample_salt" and salt = sample_salt
      and HashPassword = sample_HashPassword and user = ?user
      and h = "''wen0123456789abcdef0123456789abc''" and ident = "''6162636465666768696a6b6c''"
      and oid = sample_oid and m = mongo_bob and d = "hd (C mongo_bob ''user'')"
      and order = "[5, 0, 2]", THEN conjunct1,
      rule_format, OF pre]
  obtain d' where r: "UserService_Update sample_HashPassword (Inr sample_salt) [5, 0, 2] mongo_bob
            ''6162636465666768696a6b6c'' ?user
          = (Return None, mongo_bob\<lparr>Database := (Database mongo_bob)
               (''user'' := update_first (matches [(''_id'', BObjectId sample_oid)]) (\<lambda>_. d') (C mongo_bob ''user''))\<rparr>)"
    and f: "map_of d' = (map_of (hd (C mongo_bob ''user'')))
          (''username'' \<mapsto> BString (Username ?user),
           ''lastname'' \<mapsto> BString (Lastname ?user),
           ''firstname'' \<mapsto> BString (Firstname ?user),
           ''password'' \<mapsto> BString (take 32 ''wen0123456789abcdef0123456789abc''),
           ''salt'' \<mapsto> BString (take 32 sample_salt),
           ''email'' \<mapsto> BString (Email ?user))"
    by blast
  have u: "update_first (matches [(''_id'', BObjectId sample_oid)]) (\<lambda>_. d') (C mongo_bob ''user'') = [d']"
    by (simp add: sample_docs_bob matches_def sample_oid_def)
  have 1: "map_of d' ''password'' = Some (BString ''wen0123456789abcdef0123456789abc'')"
    by (simp add: f)
  have 2: "map_of d' ''salt'' = Some (BString sample_salt)"
    by (simp add: f sample_salt_def)
  have 3: "map_of d' ''username'' = Some (BString ''bob'')"
    by (simp add: f sample_user_def)
  have 4: "map_of d' ''_id'' = Some (BObjectId sample_oid)"
    by (simp add: f sample_docs_bob sample_oid_def)
  from r u 1 2 3 4 show ?thesis by auto
qed

text \<open>
  C2. A document that \<open>UserService.Add\<close> or \<open>UserService.Update\<close> writes to the user
  collection (one that is there afterwards and was not before) holds, together, the first
  32 bytes of the salt drawn in that call and the first 32 bytes of the hash of the
  supplied password with that salt. Both do write: with a good salt and hash, \<open>Add\<close> with a
  12-byte id not yet in the collection appends one such document, and \<open>Update\<close> with the
  identifier of a stored document puts one such document in the place of the first with
  that identifier. \<open>Delete\<close> writes no document, and the other operations of the service
  do not change the store. The plaintext reaches the store only through \<open>HashPassword\<close>:
  two passwords with the same hash give the same run.
\<close>

theorem user_writes_hold_salted_hash:
  "(d \<in> set (C (snd (UserService_Add HashPassword oid GenerateSalt m user)) ''user'')
      \<and> d \<notin> set (C m ''user'') \<longrightarrow>
      (\<exists>salt h. GenerateSalt = Inr salt \<and> HashPassword (Password user) salt = Inr h
         \<and> map_of d ''salt'' = Some (BString (take 32 salt))
         \<and> map_of d ''password'' = Some (BString (take 32 h))))
   \<and> (d \<in> set (C (snd (UserService_Update HashPassword GenerateSalt order m ident user)) ''user'')
      \<and> d \<notin> set (C m ''user'') \<longrightarrow>
      (\<exists>salt h. GenerateSalt = Inr salt \<and> HashPassword (Password user) salt = Inr h
         \<and> map_of d ''salt'' = Some (BString (take 32 salt))
         \<and> map_of d ''password'' = Some (BString (take 32 h))))
   \<and> set (C (snd (UserService_Delete m user)) ''user'') \<subseteq> set (C m ''user'')
   \<and> (HashPassword p' s = HashPassword (Password user) s \<longrightarrow>
        UserService_Add HashPassword oid (Inr s) m (user\<lparr>Password := p'\<rparr>)
          = UserService_Add HashPassword oid (Inr s) m user
        \<and> UserService_Update HashPassword (Inr s) order m ident (user\<lparr>Password := p'\<rparr>)
          = UserService_Update HashPassword (Inr s) order m ident user)
   \<and> (GenerateSalt = Inr salt \<and> 32 \<le> length salt
        \<and> HashPassword (Password user) salt = Inr h \<and> 32 \<le> length h
        \<and> length oid = 12
        \<and> \<not> list_ex (\<lambda>x. map_of x ''_id'' = Some (BObjectId oid)) (C m ''user'') \<longrightarrow>
      (\<exists>d'. C (snd (UserService_Add HashPassword oid GenerateSalt m user)) ''user''
              = C m ''user'' @ [d']
         \<and> map_of d' ''salt'' = Some (BString (take 32 salt))
         \<and> map_of d' ''password'' = Some (BString (take 32 h))))
   \<and> (GenerateSalt = Inr salt \<and> 32 \<le> length salt
        \<and> HashPassword (Password user) salt = Inr h \<and> 32 \<le> length h
        \<and> ObjectIdHex ident = Return oid'
        \<and> find (matches [(''_id'', BObjectId oid')]) (C m ''user'') = Some d0 \<longrightarrow>
      (\<exists>d'. C (snd (UserService_Update HashPassword GenerateSalt order m ident user)) ''user''
              = update_first (matches [(''_id'', BObjectId oid')]) (\<lambda>_. d') (C m ''user'')
         \<and> map_of d' ''salt'' = Some (BString (take 32 salt))
         \<and> map_of d' ''password'' = Some (BString (take 32 h))))"
proof (intro conjI impI)
  assume a: "d \<in> set (C (snd (UserService_Add HashPassword oid GenerateSalt m user)) ''user'')
      \<and> d \<notin> set (C m ''user'')"
  then have "snd (UserService_Add HashPassword oid GenerateSalt m user) \<noteq> m" by auto
  with UserService_Add_store [of HashPassword oid GenerateSalt m user]
  obtain salt h where g: "GenerateSalt = Inr salt"
    and hp: "HashPassword (Password user) salt = Inr h"
    and st: "snd (UserService_Add HashPassword oid GenerateSalt m user)
            = snd (Insert m ''user'' (marshal_User
                \<lparr>Username = Username user, Password = take 32 h, Salt = take 32 salt,
                 Email = Email user, ID = oid, Firstname = Firstname user,
                 Lastname = Lastname user\<rparr>))"
    by blast
  from a st have "d = marshal_User
                \<lparr>Username = Username user, Password = take 32 h, Salt = take 32 salt,
                 Email = Email user, ID = oid, Firstname = Firstname user,
                 Lastname = Lastname user\<rparr>"
    using Insert_new [of d m "''user''" _ "''user''"] by simp
  then have "map_of d ''salt'' = Some (BString (take 32 salt))
         \<and> map_of d ''password'' = Some (BString (take 32 h))"
    by (simp add: marshal_User_def)
  with g hp show "\<exists>salt h. GenerateSalt = Inr salt \<and> HashPassword (Password user) salt = Inr h
         \<and> map_of d ''salt'' = Some (BString (take 32 salt))
         \<and> map_of d ''password'' = Some (BString (take 32 h))"
    by blast
next
  assume a: "d \<in> set (C (snd (UserService_Update HashPassword GenerateSalt order m ident user)) ''user'')
      \<and> d \<notin> set (C m ''user'')"
  then have "C (snd (UserService_Update HashPassword GenerateSalt order m ident user)) ''user'' \<noteq> C m ''user''"
    by auto
  from UserService_Update_changes_store [OF this]
  obtain salt h oid' where g: "GenerateSalt = Inr salt" and ls: "32 \<le> length salt"
    and hp: "HashPassword (Password user) salt = Inr h" and lh: "32 \<le> length h"
    and ox: "ObjectIdHex ident = Return oid'"
    by blast
  let ?sel = "[(''_id'', BObjectId oid')]"
  let ?upd = "[(''$set'', BDoc (bson_M order
            [(''username'', BString (Username user)),
             (''lastname'', BString (Lastname user)),
             (''firstname'', BString (Firstname user)),
             (''password'', BString (take 32 h)),
             (''salt'', BString (take 32 salt)),
             (''email'', BString (Email user))]))]"
  have "snd (UserService_Update HashPassword GenerateSalt order m ident user)
      = snd (Update m ''user'' ?sel ?upd)"
    by (simp add: UserService_Update_body_Return [where HashPassword = HashPassword
        and GenerateSalt = GenerateSalt and user = user and salt = salt and h = h
        and ident = ident and oid = oid' and order = order, OF g ls hp lh ox] split: prod.splits)
  with a obtain d0 where "d = apply_update ?upd d0"
    using Update_new [of d m "''user''" ?sel ?upd "''user''"] by auto
  then have "map_of d ''salt'' = Some (BString (take 32 salt))
         \<and> map_of d ''password'' = Some (BString (take 32 h))"
    by (simp add: user_set_fields)
  with g hp show "\<exists>salt h. GenerateSalt = Inr salt \<and> HashPassword (Password user) salt = Inr h
         \<and> map_of d ''salt'' = Some (BString (take 32 salt))
         \<and> map_of d ''password'' = Some (BString (take 32 h))"
    by blast
next
  show "set (C (snd (UserService_Delete m user)) ''user'') \<subseteq> set (C m ''user'')"
    unfolding UserService_Delete_def by (rule Remove_subset)
next
  assume "HashPassword p' s = HashPassword (Password user) s"
  then show "UserService_Add HashPassword oid (Inr s) m (user\<lparr>Password := p'\<rparr>)
          = UserService_Add HashPassword oid (Inr s) m user"
    by (rule UserService_Add_password_only_hashed)
next
  assume "HashPassword p' s = HashPassword (Password user) s"
  then show "UserService_Update HashPassword (Inr s) order m ident (user\<lparr>Password := p'\<rparr>)
          = UserService_Update HashPassword (Inr s) order m ident user"
    by (rule UserService_Update_password_only_hashed)
next
  assume "GenerateSalt = Inr salt \<and> 32 \<le> length salt
        \<and> HashPassword (Password user) salt = Inr h \<and> 32 \<le> length h
        \<and> length oid = 12
        \<and> \<not> list_ex (\<lambda>x. map_of x ''_id'' = Some (BObjectId oid)) (C m ''user'')"
  then have "C (snd (UserService_Add HashPassword oid GenerateSalt m user)) ''user''
     = C m ''user'' @ [marshal_User
          \<lparr>Username = Username user, Password = take 32 h, Salt = take 32 salt,
           Email = Email user, ID = oid, Firstname = Firstname user,
           Lastname = Lastname user\<rparr>]"
    using UserService_Add_success [where GenerateSalt = GenerateSalt and salt = salt
        and HashPassword = HashPassword and user = user and h = h and oid = oid and m = m]
    by blast
  moreover have "map_of (marshal_User
          \<lparr>Username = Username user, Password = take 32 h, Salt = take 32 salt,
           Email = Email user, ID = oid, Firstname = Firstname user,
           Lastname = Lastname user\<rparr>) ''salt'' = Some (BString (take 32 salt))"
    by (simp add: marshal_User_def)
  moreover have "map_of (marshal_User
          \<lparr>Username = Username user, Password = take 32 h, Salt = take 32 salt,
           Email = Email user, ID = oid, Firstname = Firstname user,
           Lastname = Lastname user\<rparr>) ''password'' = Some (BString (take 32 h))"
    by (simp add: marshal_User_def)
  ultimately show "\<exists>d'. C (snd (UserService_Add HashPassword oid GenerateSalt m user)) ''user''
              = C m ''user'' @ [d']
         \<and> map_of d' ''salt'' = Some (BString (take 32 salt))
         \<and> map_of d' ''password'' = Some (BString (take 32 h))"
    by blast
next
  assume "GenerateSalt = Inr salt \<and> 32 \<le> length salt
        \<and> HashPassword (Password user) salt = Inr h \<and> 32 \<le> length h
        \<and> ObjectIdHex ident = Return oid'
        \<and> find (matches [(''_id'', BObjectId oid')]) (C m ''user'') = Some d0"
  then obtain d' where r: "UserService_Update HashPassword GenerateSalt order m ident user =
        (Return None, m\<lparr>Database := (Database m)
           (''user'' := update_first (matches [(''_id'', BObjectId oid')]) (\<lambda>_. d') (C m ''user''))\<rparr>)"
    and f: "map_of d' = (map_of d0)
          (''username'' \<mapsto> BString (Username user),
           ''lastname'' \<mapsto> BString (Lastname user),
           ''firstname'' \<mapsto> BString (Firstname user),
           ''password'' \<mapsto> BString (take 32 h),
           ''salt'' \<mapsto> BString (take 32 salt),
           ''email'' \<mapsto> BString (Email user))"
    using UserService_Update_success [where GenerateSalt = GenerateSalt and salt = salt
        and HashPassword = HashPassword and user = user and h = h and ident = ident
        and oid = oid' and m = m and d = d0 and order = order]
    by blast
  from r have "C (snd (UserService_Update HashPassword GenerateSalt order m ident user)) ''user''
              = update_first (matches [(''_id'', BObjectId oid')]) (\<lambda>_. d') (C m ''user'')"
    by (simp add: C_def)
  moreover from f have "map_of d' ''salt'' = Some (BString (take 32 salt))" by simp
  moreover from f have "map_of d' ''password'' = Some (BString (take 32 h))" by simp
  ultimately show "\<exists>d'. C (snd (UserService_Update HashPassword GenerateSalt order m ident user)) ''user''
              = update_first (matches [(''_id'', BObjectId oid')]) (\<lambda>_. d') (C m ''user'')
         \<and> map_of d' ''salt'' = Some (BString (take 32 salt))
         \<and> map_of d' ''password'' = Some (BString (take 32 h))"
    by blast
qed

theorem user_writes_hold_salted_hash_witness:
  "hd (C mongo_bob ''user'')
      \<in> set (C (snd (UserService_Add sample_HashPassword sample_oid (Inr sample_salt) mongo_empty sample_user)) ''user'')
   \<and> hd (C mongo_bob ''user'') \<notin> set (C mongo_empty ''user'')
   \<and> (\<exists>salt h. (Inr sample_salt :: error + string) = Inr salt
         \<and> sample_HashPassword (Password sample_user) salt = Inr h
         \<and> map_of (hd (C mongo_bob ''user'')) ''salt'' = Some (BString (take 32 salt))
         \<and> map_of (hd (C mongo_bob ''user'')) ''password'' = Some (BString (take 32 h)))
   \<and> map_of (hd (C mongo_bob ''user'')) ''password'' = Some (BString ''terces0123456789abcdef0123456789'')
   \<and> Password sample_user = ''secret''
   \<and> hd (C mongo_bob_new ''user'')
      \<in> set (C (snd (UserService_Update sample_HashPassword (Inr sample_salt) [5, 0, 2] mongo_bob
            ''6162636465666768696a6b6c'' (sample_user\<lparr>Password := ''new''\<rparr>))) ''user'')
   \<and> hd (C mongo_bob_new ''user'') \<notin> set (C mongo_bob ''user'')
   \<and> (\<exists>salt h. (Inr sample_salt :: error + string) = Inr salt
         \<and> sample_HashPassword (Password (sample_user\<lparr>Password := ''new''\<rparr>)) salt = Inr h
         \<and> map_of (hd (C mongo_bob_new ''user'')) ''salt'' = Some (BString (take 32 salt))
         \<and> map_of (hd (C mongo_bob_new ''user'')) ''password'' = Some (BString (take 32 h)))
   \<and> map_of (hd (C mongo_bob_new ''user'')) ''password'' = Some (BString ''wen0123456789abcdef0123456789abc'')
   \<and> map_of (hd (C mongo_bob_new ''user'')) ''salt'' = Some (BString sample_salt)
   \<and> (\<exists>d'. C (snd (UserService_Update sample_HashPassword (Inr sample_salt) [5, 0, 2] mongo_bob
            ''6162636465666768696a6b6c'' (sample_user\<lparr>Password := ''new''\<rparr>))) ''user'' = [d']
         \<and> map_of d' ''salt'' = Some (BString sample_salt)
         \<and> map_of d' ''password'' = Some (BString ''wen0123456789abcdef0123456789abc''))"
proof -
  let ?new = "sample_user\<lparr>Password := ''new''\<rparr>"
  have a: "hd (C mongo_bob ''user'')
      \<in> set (C (snd (UserService_Add sample_HashPassword sample_oid (Inr sample_salt) mongo_empty sample_user)) ''user'')"
    unfolding mongo_bob_def [symmetric] by (simp add: sample_docs_bob)
  have b: "hd (C mongo_bob ''user'') \<notin> set (C mongo_empty ''user'')"
    by (simp add: mongo_empty_def C_def)
  from user_writes_hold_salted_hash [where d = "hd (C mongo_bob ''user'')"
      and HashPassword = sample_HashPassword and oid = sample_oid
      and GenerateSalt = "Inr sample_salt" and m = mongo_empty and user = sample_user,
      THEN conjunct1] a b
  have c: "\<exists>salt h. (Inr sample_salt :: error + string) = Inr salt
         \<and> sample_HashPassword (Password sample_user) salt = Inr h
         \<and> map_of (hd (C mongo_bob ''user'')) ''salt'' = Some (BString (take 32 salt))
         \<and> map_of (hd (C mongo_bob ''user'')) ''password'' = Some (BString (take 32 h))"
    by blast
  have d: "map_of (hd (C mongo_bob ''user'')) ''password'' = Some (BString ''terces0123456789abcdef0123456789'')"
    by (simp add: sample_docs_bob)
  have e: "Password sample_user = ''secret''" by (simp add: sample_user_def)
  have a': "hd (C mongo_bob_new ''user'')
      \<in> set (C (snd (UserService_Update sample_HashPassword (Inr sample_salt) [5, 0, 2] mongo_bob
            ''6162636465666768696a6b6c'' ?new)) ''user'')"
    unfolding mongo_bob_new_def [symmetric] by (simp add: sample_docs_bob_new)
  have b': "hd (C mongo_bob_new ''user'') \<notin> set (C mongo_bob ''user'')"
    by (simp add: sample_docs_bob_new sample_docs_bob)
  from user_writes_hold_salted_hash [where d = "hd (C mongo_bob_new ''user'')"
      and HashPassword = sample_HashPassword and order = "[5, 0, 2]"
      and GenerateSalt = "Inr sample_salt" and m = mongo_bob
      and ident = "''6162636465666768696a6b6c''" and user = ?new,
      THEN conjunct2, THEN conjunct1] a' b'
  have c': "\<exists>salt h. (Inr sample_salt :: error + string) = Inr salt
         \<and> sample_HashPassword (Password ?new) salt = Inr h
         \<and> map_of (hd (C mongo_bob_new ''user'')) ''salt'' = Some (BString (take 32 salt))
         \<and> map_of (hd (C mongo_bob_new ''user'')) ''password'' = Some (BString (take 32 h))"
    by blast
  then have d': "map_of (hd (C mongo_bob_new ''user'')) ''password''
        = Some (BString ''wen0123456789abcdef0123456789abc'')"
    and e': "map_of (hd (C mongo_bob_new ''user'')) ''salt'' = Some (BString sample_salt)"
    by (auto simp: sample_HashPassword_def sample_salt_def)
  have hp: "sample_HashPassword (Password ?new) sample_salt = Inr ''wen0123456789abcdef0123456789abc''"
    by (simp add: sample_HashPassword_def sample_salt_def)
  have pre: "(Inr sample_salt :: error + string) = Inr sample_salt \<and> 32 \<le> length sample_salt
      \<and> sample_HashPassword (Password ?new) sample_salt = Inr ''wen0123456789abcdef0123456789abc''
      \<and> 32 \<le> length ''wen0123456789abcdef0123456789abc''
      \<and> ObjectIdHex ''6162636465666768696a6b6c'' = Return sample_oid
      \<and> find (matches [(''_id'', BObjectId sample_oid)]) (C mongo_bob ''user'') = Some (hd (C mongo_bob ''user''))"
    using hp sample_ObjectIdHex sample_find_bob by (simp add: sample_salt_def)
  from user_writes_hold_salted_hash [where HashPassword = sample_HashPassword
      and order = "[5, 0, 2]" and GenerateSalt = "Inr sample_salt" and salt = sample_salt
      and h = "''wen0123456789abcdef0123456789abc''" and m = mongo_bob
      and ident = "''6162636465666768696a6b6c''" and oid' = sample_oid
      and d0 = "hd (C mongo_bob ''user'')" and user = ?new,
      THEN conjunct2, THEN conjunct2, THEN conjunct2, THEN conjunct2, THEN conjunct2,
      rule_format, OF pre]
  obtain d' where s: "C (snd (UserService_Update sample_HashPassword (Inr sample_salt) [5, 0, 2] mongo_bob
            ''6162636465666768696a6b6c'' ?new)) ''user''
          = update_first (matches [(''_id'', BObjectId sample_oid)]) (\<lambda>_. d') (C mongo_bob ''user'')"
    and s1: "map_of d' ''salt'' = Some (BString (take 32 sample_salt))"
    and s2: "map_of d' ''password'' = Some (BString (take 32 ''wen0123456789abcdef0123456789abc''))"
    by blast
  have u: "update_first (matches [(''_id'', BObjectId sample_oid)]) (\<lambda>_. d') (C mongo_bob ''user'') = [d']"
    by (simp add: sample_docs_bob matches_def sample_oid_def)
  from s1 have t1: "map_of d' ''salt'' = Some (BString sample_salt)"
    by (simp add: sample_salt_def)
  from s2 have t2: "map_of d' ''password'' = Some (BString ''wen0123456789abcdef0123456789abc'')"
    by simp
  from s u t1 t2 have f: "\<exists>d'. C (snd (UserService_Update sample_HashPassword (Inr sample_salt) [5, 0, 2] mongo_bob
            ''6162636465666768696a6b6c'' ?new)) ''user'' = [d']
         \<and> map_of d' ''salt'' = Some (BString sample_salt)
         \<and> map_of d' ''password'' = Some (BString ''wen0123456789abcdef0123456789abc'')"
    by auto
  from a b c d e a' b' c' d' e' f show ?thesis by blast
qed

section \<open>Writes of the article service\<close>

text \<open>The one document \<open>ArticleService.Add\<close> can add to the article collection.\<close>

lemma ArticleService_Add_written:
  assumes "d \<in> set (C (snd (ArticleService_Add SanitizeTitle oid m article)) ''article'')"
    and "d \<notin> set (C m ''article'')"
  shows "d = marshal_Article
     \<lparr>ID = oid, Titre = Titre article, Pretty = SanitizeTitle (Titre article),
      Texte = Texte article, Tags = Tags article, Image = Image article,
      Vignette = Vignette article, Status = Status article, Create = Create article,
      Modified = Create article,
      UserRef = \<lparr>Collection = ''user'', Id = Id (UserRef article), Database = []\<rparr>\<rparr>"
proof -
  have "snd (ArticleService_Add SanitizeTitle oid m article)
      = snd (Insert m ''article'' (marshal_Article
     \<lparr>ID = oid, Titre = Titre article, Pretty = SanitizeTitle (Titre article),
      Texte = Texte article, Tags = Tags article, Image = Image article,
      Vignette = Vignette article, Status = Status article, Create = Create article,
      Modified = Create article,
      UserRef = \<lparr>Collection = ''user'', Id = Id (UserRef article), Database = []\<rparr>\<rparr>))"
    by (simp add: ArticleService_Add_def Let_def split: sum.splits)
  with assms show ?thesis
    using Insert_new [of d m "''article''" _ "''article''"] by simp
qed

text \<open>The \<open>$set\<close> document of \<open>ArticleService.Update\<close> sets nine fields and keeps every other.\<close>

lemma article_set_fields:
  "map_of (apply_update
      [(''$set'', BDoc (bson_M order
          [(''titre'', a), (''pretty'', b), (''image'', c), (''vignette'', e),
           (''texte'', f), (''status'', g), (''modified'', h), (''tags'', i),
           (''userref'', j)]))] d)
   = (map_of d)(''titre'' \<mapsto> a, ''pretty'' \<mapsto> b, ''image'' \<mapsto> c, ''vignette'' \<mapsto> e,
        ''texte'' \<mapsto> f, ''status'' \<mapsto> g, ''modified'' \<mapsto> h, ''tags'' \<mapsto> i,
        ''userref'' \<mapsto> j)"
  by (subst map_of_apply_update) (auto simp: fun_eq_iff map_add_def)

lemma ArticleService_Update_written:
  assumes "d \<in> set (C (snd (ArticleService_Update SanitizeTitle set_order ref_order m ident article)) ''article'')"
    and "d \<notin> set (C m ''article'')"
  shows "\<exists>d0. map_of d = (map_of d0)
       (''titre'' \<mapsto> BString (Titre article),
        ''pretty'' \<mapsto> BString (SanitizeTitle (Titre article)),
        ''image'' \<mapsto> BDoc (Image article),
        ''vignette'' \<mapsto> BDoc (Vignette article),
        ''texte'' \<mapsto> BString (Texte article),
        ''status'' \<mapsto> BString (Status article),
        ''modified'' \<mapsto> marshal_Time (Modified article),
        ''tags'' \<mapsto> BArray (Tags article),
        ''userref'' \<mapsto> BDoc (bson_M ref_order
            [(''$ref'', BString (Collection (UserRef article))),
             (''$id'', Id (UserRef article))]))"
proof (cases "ObjectIdHex ident")
  case (Panic p)
  then have "snd (ArticleService_Update SanitizeTitle set_order ref_order m ident article) = m"
    by (simp add: ArticleService_Update_def)
  with assms show ?thesis by simp
next
  case (Return oid)
  let ?upd = "[(''$set'', BDoc (bson_M set_order
                      [(''titre'', BString (Titre article)),
                       (''pretty'', BString (SanitizeTitle (Titre article))),
                       (''image'', BDoc (Image article)),
                       (''vignette'', BDoc (Vignette article)),
                       (''texte'', BString (Texte article)),
                       (''status'', BString (Status article)),
                       (''modified'', marshal_Time (Modified article)),
                       (''tags'', BArray (Tags article)),
                       (''userref'', BDoc (bson_M ref_order
                          [(''$ref'', BString (Collection (UserRef article))),
                           (''$id'', Id (UserRef article))]))]))]"
  from Return have "snd (ArticleService_Update SanitizeTitle set_order ref_order m ident article)
      = snd (Update m ''article'' [(''_id'', BObjectId oid)] ?upd)"
    by (simp add: ArticleService_Update_def Let_def split: prod.splits)
  with assms obtain d0 where "d = apply_update ?upd d0"
    using Update_new [of d m "''article''" "[(''_id'', BObjectId oid)]" ?upd "''article''"] by auto
  then have "map_of d = (map_of d0)
       (''titre'' \<mapsto> BString (Titre article),
        ''pretty'' \<mapsto> BString (SanitizeTitle (Titre article)),
        ''image'' \<mapsto> BDoc (Image article),
        ''vignette'' \<mapsto> BDoc (Vignette article),
        ''texte'' \<mapsto> BString (Texte article),
        ''status'' \<mapsto> BString (Status article),
        ''modified'' \<mapsto> marshal_Time (Modified article),
        ''tags'' \<mapsto> BArray (Tags article),
        ''userref'' \<mapsto> BDoc (bson_M ref_order
            [(''$ref'', BString (Collection (UserRef article))),
             (''$id'', Id (UserRef article))]))"
    by (simp only: article_set_fields)
  then show ?thesis by blast
qed

lemma ArticleService_Add_result:
  assumes "ArticleService_Add SanitizeTitle oid m article = ((r, None), m')"
  shows "\<exists>d. One [(''_id'', BObjectId oid)] (C m' ''article'') = Inr d \<and> r = unmarshal_Article d
    \<and> m' = snd (ArticleService_Add SanitizeTitle oid m article)"
  using assms by (auto simp: ArticleService_Add_def Let_def split: sum.splits)

lemma ArticleService_Add_fresh_success:
  assumes "ArticleService_Add SanitizeTitle oid m article = ((r, None), m')"
    and "\<not> list_ex (\<lambda>d. map_of d ''_id'' = Some (BObjectId oid)) (C m ''article'')"
  shows "r = unmarshal_Article (marshal_Article
     \<lparr>ID = oid, Titre = Titre article, Pretty = SanitizeTitle (Titre article),
      Texte = Texte article, Tags = Tags article, Image = Image article,
      Vignette = Vignette article, Status = Status article, Create = Create article,
      Modified = Create article,
      UserRef = \<lparr>Collection = ''user'', Id = Id (UserRef article), Database = []\<rparr>\<rparr>)"
proof -
  from ArticleService_Add_result [OF assms(1)] obtain d
    where o: "One [(''_id'', BObjectId oid)] (C m' ''article'') = Inr d"
      and r: "r = unmarshal_Article d"
      and m': "m' = snd (ArticleService_Add SanitizeTitle oid m article)"
    by blast
  from One_id [OF o] have din: "d \<in> set (C m' ''article'')"
    and did: "map_of d ''_id'' = Some (BObjectId oid)" by blast+
  from did assms(2) have "d \<notin> set (C m ''article'')"
    by (auto simp: list_ex_iff)
  with din m' have "d = marshal_Article
     \<lparr>ID = oid, Titre = Titre article, Pretty = SanitizeTitle (Titre article),
      Texte = Texte article, Tags = Tags article, Image = Image article,
      Vignette = Vignette article, Status = Status article, Create = Create article,
      Modified = Create article,
      UserRef = \<lparr>Collection = ''user'', Id = Id (UserRef article), Database = []\<rparr>\<rparr>"
    using ArticleService_Add_written [of d SanitizeTitle oid m article] by simp
  with r show ?thesis by simp
qed

lemma sample_docs_second: "C mongo_second ''article'' =
  [[(''_id'', BObjectId ''abcdefghijkl''),
    (''titre'', BString ''Second title''),
    (''pretty'', BString ''Second-title''),
    (''texte'', BString ''text''),
    (''tags'', BArray []),
    (''image'', BDoc []),
    (''vignette'', BDoc []),
    (''status'', BString ''draft''),
    (''create'', BTime 1500000000123),
    (''modified'', BTime 1600000000000),
    (''userref'', BDoc [(''$id'', BString ''bob''), (''$ref'', BString ''people'')])]]"
proof -
  have h: "Database mongo_hello ''article'' = C mongo_hello ''article''"
    by (simp add: C_def)
  have o: "\<And>a b c d e f g h i :: string \<times> bson.
      bson_M [4, 0, 7] [a, b, c, d, e, f, g, h, i] = [e, a, b, c, d, f, g, h, i]"
    by (simp add: Let_def)
  have r: "\<And>a b :: string \<times> bson. bson_M [1] [a, b] = [b, a]"
    by (simp add: Let_def)
  show ?thesis
    unfolding mongo_second_def
    by (simp add: ArticleService_Update_def sample_ObjectIdHex Update_def valid_doc_def
      sample_oid_def sample_article_def sample_SanitizeTitle_def marshal_Time_def
      apply_update_def matches_def h o r sample_docs_hello C_def [of "_\<lparr>Database := _\<rparr>"])
qed

lemma sample_hello_written:
  "hd (C mongo_hello ''article'')
      \<in> set (C (snd (ArticleService_Add sample_SanitizeTitle sample_oid mongo_empty sample_article)) ''article'')
   \<and> hd (C mongo_hello ''article'') \<notin> set (C mongo_empty ''article'')"
proof -
  have a: "hd (C mongo_hello ''article'')
      \<in> set (C (snd (ArticleService_Add sample_SanitizeTitle sample_oid mongo_empty sample_article)) ''article'')"
    unfolding mongo_hello_def [symmetric] by (simp add: sample_docs_hello)
  have b: "hd (C mongo_hello ''article'') \<notin> set (C mongo_empty ''article'')"
    by (simp add: mongo_empty_def C_def)
  from a b show ?thesis by blast
qed

lemma sample_second_written:
  "hd (C mongo_second ''article'')
      \<in> set (C (snd (ArticleService_Update sample_SanitizeTitle [4, 0, 7] [1] mongo_hello
            ''6162636465666768696a6b6c''
            (sample_article\<lparr>Titre := ''Second title'', Modified := 1600000000000000000\<rparr>))) ''article'')
   \<and> hd (C mongo_second ''article'') \<notin> set (C mongo_hello ''article'')"
proof -
  have a: "hd (C mongo_second ''article'')
      \<in> set (C (snd (ArticleService_Update sample_SanitizeTitle [4, 0, 7] [1] mongo_hello
            ''6162636465666768696a6b6c''
            (sample_article\<lparr>Titre := ''Second title'', Modified := 1600000000000000000\<rparr>))) ''article'')"
    unfolding mongo_second_def [symmetric] by (simp add: sample_docs_second)
  have b: "hd (C mongo_second ''article'') \<notin> set (C mongo_hello ''article'')"
    by (simp add: sample_docs_second sample_docs_hello)
  from a b show ?thesis by blast
qed

lemma sample_Add_article:
  "ArticleService_Add sample_SanitizeTitle sample_oid mongo_empty sample_article
     = ((unmarshal_Article (hd (C mongo_hello ''article'')), None), mongo_hello)"
proof -
  have "fst (ArticleService_Add sample_SanitizeTitle sample_oid mongo_empty sample_article)
      = (unmarshal_Article (hd (C mongo_hello ''article'')), None)"
    unfolding sample_docs_hello
    by (simp add: ArticleService_Add_def sample_SanitizeTitle_def
      sample_oid_def sample_article_def mongo_empty_def Insert_def One_def C_def
      valid_doc_def marshal_Article_def marshal_DBRef_def marshal_Time_def matches_def Let_def)
  then show ?thesis
    by (simp add: mongo_hello_def prod_eq_iff)
qed

lemma sample_Add_user:
  "UserService_Add sample_HashPassword sample_oid (Inr sample_salt) mongo_empty sample_user
     = (Return (unmarshal_User (hd (C mongo_bob ''user'')), None), mongo_bob)"
proof -
  have "fst (UserService_Add sample_HashPassword sample_oid (Inr sample_salt) mongo_empty sample_user)
      = Return (unmarshal_User (hd (C mongo_bob ''user'')), None)"
    unfolding sample_docs_bob
    by (simp add: UserService_Add_def sample_HashPassword_def sample_salt_def
      sample_oid_def sample_user_def mongo_empty_def slice_to_def Insert_def One_def C_def
      valid_doc_def marshal_User_def matches_def Let_def)
  then show ?thesis
    by (simp add: mongo_bob_def prod_eq_iff)
qed

lemma sample_fresh:
  "\<not> list_ex (\<lambda>d. map_of d ''_id'' = Some (BObjectId sample_oid)) (C mongo_empty ''article'')"
  by (simp add: mongo_empty_def C_def)



text \<open>
  C8. The document \<open>ArticleService.Add\<close> inserts has its \<open>modified\<close> field equal to its
  \<open>create\<close> field, both the caller's \<open>Create\<close> time in milliseconds. \<open>Add\<close> reads no
  clock, and the \<open>Modified\<close> time the caller supplies has no effect. When the new id is
  not yet in the collection and \<open>Add\<close> succeeds, the article it returns has
  \<open>Modified = Create\<close>, the caller's \<open>Create\<close> cut to milliseconds.
\<close>

theorem modified_equals_create_on_Add:
  "(d \<in> set (C (snd (ArticleService_Add SanitizeTitle oid m article)) ''article'')
      \<and> d \<notin> set (C m ''article'') \<longrightarrow>
      map_of d ''modified'' = Some (marshal_Time (Create article))
      \<and> map_of d ''create'' = Some (marshal_Time (Create article)))
   \<and> ArticleService_Add SanitizeTitle oid m (article\<lparr>Modified := t\<rparr>)
        = ArticleService_Add SanitizeTitle oid m article
   \<and> (ArticleService_Add SanitizeTitle oid m article = ((r, None), m')
        \<and> \<not> list_ex (\<lambda>d. map_of d ''_id'' = Some (BObjectId oid)) (C m ''article'') \<longrightarrow>
      Modified r = Create r \<and> Create r = Create article div 1000000 * 1000000)"
proof (intro conjI impI)
  assume "d \<in> set (C (snd (ArticleService_Add SanitizeTitle oid m article)) ''article'')
      \<and> d \<notin> set (C m ''article'')"
  then have d: "d = marshal_Article
     \<lparr>ID = oid, Titre = Titre article, Pretty = SanitizeTitle (Titre article),
      Texte = Texte article, Tags = Tags article, Image = Image article,
      Vignette = Vignette article, Status = Status article, Create = Create article,
      Modified = Create article,
      UserRef = \<lparr>Collection = ''user'', Id = Id (UserRef article), Database = []\<rparr>\<rparr>"
    using ArticleService_Add_written [of d SanitizeTitle oid m article] by blast
  show "map_of d ''modified'' = Some (marshal_Time (Create article))"
    by (simp add: d marshal_Article_def)
  show "map_of d ''create'' = Some (marshal_Time (Create article))"
    by (simp add: d marshal_Article_def)
next
  show "ArticleService_Add SanitizeTitle oid m (article\<lparr>Modified := t\<rparr>)
        = ArticleService_Add SanitizeTitle oid m article"
    by (simp add: ArticleService_Add_def)
next
  assume a: "ArticleService_Add SanitizeTitle oid m article = ((r, None), m')
        \<and> \<not> list_ex (\<lambda>d. map_of d ''_id'' = Some (BObjectId oid)) (C m ''article'')"
  then have r: "r = unmarshal_Article (marshal_Article
     \<lparr>ID = oid, Titre = Titre article, Pretty = SanitizeTitle (Titre article),
      Texte = Texte article, Tags = Tags article, Image = Image article,
      Vignette = Vignette article, Status = Status article, Create = Create article,
      Modified = Create article,
      UserRef = \<lparr>Collection = ''user'', Id = Id (UserRef article), Database = []\<rparr>\<rparr>)"
    using ArticleService_Add_fresh_success [of SanitizeTitle oid m article r m'] by blast
  show "Modified r = Create r"
    by (simp add: r unmarshal_Article_def marshal_Article_def time_field_def marshal_Time_def)
  show "Create r = Create article div 1000000 * 1000000"
    by (simp add: r unmarshal_Article_def marshal_Article_def time_field_def marshal_Time_def)
qed

theorem modified_equals_create_on_Add_witness:
  "hd (C mongo_hello ''article'')
      \<in> set (C (snd (ArticleService_Add sample_SanitizeTitle sample_oid mongo_empty sample_article)) ''article'')
   \<and> hd (C mongo_hello ''article'') \<notin> set (C mongo_empty ''article'')
   \<and> map_of (hd (C mongo_hello ''article'')) ''modified'' = Some (BTime 1500000000123)
   \<and> map_of (hd (C mongo_hello ''article'')) ''create'' = Some (BTime 1500000000123)
   \<and> Create sample_article = 1500000000123456789
   \<and> Modified sample_article = 42
   \<and> ArticleService_Add sample_SanitizeTitle sample_oid mongo_empty sample_article
       = ((unmarshal_Article (hd (C mongo_hello ''article'')), None), mongo_hello)
   \<and> Modified (unmarshal_Article (hd (C mongo_hello ''article''))) = 1500000000123000000
   \<and> Create (unmarshal_Article (hd (C mongo_hello ''article''))) = 1500000000123000000"
proof -
  note t = modified_equals_create_on_Add [where d = "hd (C mongo_hello ''article'')"
      and SanitizeTitle = sample_SanitizeTitle and oid = sample_oid and m = mongo_empty
      and article = sample_article and m' = mongo_hello
      and r = "unmarshal_Article (hd (C mongo_hello ''article''))"]
  from t [THEN conjunct1] sample_hello_written
  have c: "map_of (hd (C mongo_hello ''article'')) ''modified'' = Some (marshal_Time (Create sample_article))
      \<and> map_of (hd (C mongo_hello ''article'')) ''create'' = Some (marshal_Time (Create sample_article))"
    by blast
  have d: "marshal_Time (Create sample_article) = BTime 1500000000123"
    by (simp add: marshal_Time_def sample_article_def)
  have e: "Create sample_article = 1500000000123456789" "Modified sample_article = 42"
    by (simp_all add: sample_article_def)
  from t [THEN conjunct2, THEN conjunct2] sample_Add_article sample_fresh
  have f: "Modified (unmarshal_Article (hd (C mongo_hello ''article'')))
        = Create (unmarshal_Article (hd (C mongo_hello ''article'')))
      \<and> Create (unmarshal_Article (hd (C mongo_hello ''article'')))
        = Create sample_article div 1000000 * 1000000"
    by blast
  have g: "Create sample_article div 1000000 * 1000000 = 1500000000123000000"
    by (simp add: sample_article_def)
  from sample_hello_written sample_Add_article c d e f g show ?thesis by simp
qed

text \<open>
  The author reference \<open>Update\<close> writes is a map of two keys: it is stored in one of two
  orders, and read back it is the caller's collection name and id in either.
\<close>

lemma userref_orders:
  assumes "r = bson_M ref_order [(''$ref'', BString c), (''$id'', i)]"
  shows "(r = [(''$ref'', BString c), (''$id'', i)] \<or> r = [(''$id'', i), (''$ref'', BString c)])
    \<and> unmarshal_DBRef r = \<lparr>Collection = c, Id = i, Database = []\<rparr>"
proof -
  from assms bson_M_pair [of ref_order "(''$ref'', BString c)" "(''$id'', i)"]
  have o: "r = [(''$ref'', BString c), (''$id'', i)] \<or> r = [(''$id'', i), (''$ref'', BString c)]"
    by simp
  then have "unmarshal_DBRef r = \<lparr>Collection = c, Id = i, Database = []\<rparr>"
    by (auto simp: unmarshal_DBRef_def string_field_def any_field_def)
  with o show ?thesis by blast
qed

text \<open>
  The success path of \<open>ArticleService.Update\<close>: the identifier is good, a document has it,
  and every object id inside the article's tags, images and reference id is a 12-byte id.
\<close>

lemma ArticleService_Update_success:
  assumes ox: "ObjectIdHex ident = Return oid"
    and fd: "find (matches [(''_id'', BObjectId oid)]) (C m ''article'') = Some d0"
    and vt: "list_all valid_bson (Tags article)"
    and vi: "valid_doc (Image article)" and vv: "valid_doc (Vignette article)"
    and vr: "valid_bson (Id (UserRef article))"
  shows "\<exists>d'. ArticleService_Update SanitizeTitle set_order ref_order m ident article =
        (Return None, m\<lparr>Database := (Database m)
           (''article'' := update_first (matches [(''_id'', BObjectId oid)]) (\<lambda>_. d') (C m ''article''))\<rparr>)
      \<and> map_of d' = (map_of d0)
       (''titre'' \<mapsto> BString (Titre article),
        ''pretty'' \<mapsto> BString (SanitizeTitle (Titre article)),
        ''image'' \<mapsto> BDoc (Image article),
        ''vignette'' \<mapsto> BDoc (Vignette article),
        ''texte'' \<mapsto> BString (Texte article),
        ''status'' \<mapsto> BString (Status article),
        ''modified'' \<mapsto> marshal_Time (Modified article),
        ''tags'' \<mapsto> BArray (Tags article),
        ''userref'' \<mapsto> BDoc (bson_M ref_order
            [(''$ref'', BString (Collection (UserRef article))),
             (''$id'', Id (UserRef article))]))"
proof -
  let ?sel = "[(''_id'', BObjectId oid)]"
  let ?upd = "[(''$set'', BDoc (bson_M set_order
                      [(''titre'', BString (Titre article)),
                       (''pretty'', BString (SanitizeTitle (Titre article))),
                       (''image'', BDoc (Image article)),
                       (''vignette'', BDoc (Vignette article)),
                       (''texte'', BString (Texte article)),
                       (''status'', BString (Status article)),
                       (''modified'', marshal_Time (Modified article)),
                       (''tags'', BArray (Tags article)),
                       (''userref'', BDoc (bson_M ref_order
                          [(''$ref'', BString (Collection (UserRef article))),
                           (''$id'', Id (UserRef article))]))]))]"
  from ox have len: "length oid = 12" by (rule ObjectIdHex_length)
  then have v1: "valid_doc ?sel" by (simp add: valid_doc_def)
  from vt vi vv vr have v2: "valid_doc ?upd"
    by (simp add: valid_doc_def valid_bson_M marshal_Time_def)
  from fd have ex: "list_ex (matches ?sel) (C m ''article'')" by (simp add: find_list_ex)
  from fd have uf: "update_first (matches ?sel) (apply_update ?upd) (C m ''article'')
      = update_first (matches ?sel) (\<lambda>_. apply_update ?upd d0) (C m ''article'')"
    by (rule update_first_find)
  have "Update m ''article'' ?sel ?upd = (None, m\<lparr>Database := (Database m)
           (''article'' := update_first (matches ?sel) (\<lambda>_. apply_update ?upd d0) (C m ''article''))\<rparr>)"
    by (simp only: Update_def v1 v2 ex uf simp_thms if_True)
  with ox have "ArticleService_Update SanitizeTitle set_order ref_order m ident article =
        (Return None, m\<lparr>Database := (Database m)
           (''article'' := update_first (matches ?sel) (\<lambda>_. apply_update ?upd d0) (C m ''article''))\<rparr>)"
    by (simp add: ArticleService_Update_def Let_def)
  moreover have "map_of (apply_update ?upd d0) = (map_of d0)
       (''titre'' \<mapsto> BString (Titre article),
        ''pretty'' \<mapsto> BString (SanitizeTitle (Titre article)),
        ''image'' \<mapsto> BDoc (Image article),
        ''vignette'' \<mapsto> BDoc (Vignette article),
        ''texte'' \<mapsto> BString (Texte article),
        ''status'' \<mapsto> BString (Status article),
        ''modified'' \<mapsto> marshal_Time (Modified article),
        ''tags'' \<mapsto> BArray (Tags article),
        ''userref'' \<mapsto> BDoc (bson_M ref_order
            [(''$ref'', BString (Collection (UserRef article))),
             (''$id'', Id (UserRef article))]))"
    by (rule article_set_fields)
  ultimately show ?thesis by blast
qed

text \<open>
  C10. The document \<open>ArticleService.Add\<close> inserts has the author reference
  \<open>{$ref: "user", $id: id}\<close> with the caller's reference id; the collection name the caller
  supplies has no effect on \<open>Add\<close>. A document \<open>ArticleService.Update\<close> writes has as its
  author reference the two pairs \<open>$ref: c\<close> and \<open>$id: id\<close>, in either order, with the
  caller's collection name \<open>c\<close> as it is; read back, the reference has that collection name
  and id. And \<open>Update\<close> does write such a document on its success path.
\<close>

theorem author_reference_collection:
  "(d \<in> set (C (snd (ArticleService_Add SanitizeTitle oid m article)) ''article'')
      \<and> d \<notin> set (C m ''article'') \<longrightarrow>
      map_of d ''userref''
        = Some (BDoc [(''$ref'', BString ''user''), (''$id'', Id (UserRef article))]))
   \<and> ArticleService_Add SanitizeTitle oid m (article\<lparr>UserRef := (UserRef article)\<lparr>Collection := c\<rparr>\<rparr>)
        = ArticleService_Add SanitizeTitle oid m article
   \<and> (d \<in> set (C (snd (ArticleService_Update SanitizeTitle set_order ref_order m ident article)) ''article'')
      \<and> d \<notin> set (C m ''article'') \<longrightarrow>
      (map_of d ''userref''
         = Some (BDoc [(''$ref'', BString (Collection (UserRef article))),
                       (''$id'', Id (UserRef article))])
       \<or> map_of d ''userref''
         = Some (BDoc [(''$id'', Id (UserRef article)),
                       (''$ref'', BString (Collection (UserRef article)))]))
      \<and> unmarshal_DBRef (doc_field d ''userref'')
         = \<lparr>Collection = Collection (UserRef article), Id = Id (UserRef article), Database = []\<rparr>)
   \<and> (ObjectIdHex ident = Return oid'
        \<and> find (matches [(''_id'', BObjectId oid')]) (C m ''article'') = Some d0
        \<and> list_all valid_bson (Tags article) \<and> valid_doc (Image article)
        \<and> valid_doc (Vignette article) \<and> valid_bson (Id (UserRef article)) \<longrightarrow>
      (\<exists>d'. C (snd (ArticleService_Update SanitizeTitle set_order ref_order m ident article)) ''article''
              = update_first (matches [(''_id'', BObjectId oid')]) (\<lambda>_. d') (C m ''article'')
         \<and> (map_of d' ''userref''
               = Some (BDoc [(''$ref'', BString (Collection (UserRef article))),
                             (''$id'', Id (UserRef article))])
             \<or> map_of d' ''userref''
               = Some (BDoc [(''$id'', Id (UserRef article)),
                             (''$ref'', BString (Collection (UserRef article)))]))
         \<and> unmarshal_DBRef (doc_field d' ''userref'')
             = \<lparr>Collection = Collection (UserRef article), Id = Id (UserRef article),
                Database = []\<rparr>))"
proof (intro conjI impI)
  assume "d \<in> set (C (snd (ArticleService_Add SanitizeTitle oid m article)) ''article'')
      \<and> d \<notin> set (C m ''article'')"
  then have d: "d = marshal_Article
     \<lparr>ID = oid, Titre = Titre article, Pretty = SanitizeTitle (Titre article),
      Texte = Texte article, Tags = Tags article, Image = Image article,
      Vignette = Vignette article, Status = Status article, Create = Create article,
      Modified = Create article,
      UserRef = \<lparr>Collection = ''user'', Id = Id (UserRef article), Database = []\<rparr>\<rparr>"
    using ArticleService_Add_written [of d SanitizeTitle oid m article] by blast
  show "map_of d ''userref''
        = Some (BDoc [(''$ref'', BString ''user''), (''$id'', Id (UserRef article))])"
    by (simp add: d marshal_Article_def marshal_DBRef_def)
next
  show "ArticleService_Add SanitizeTitle oid m (article\<lparr>UserRef := (UserRef article)\<lparr>Collection := c\<rparr>\<rparr>)
        = ArticleService_Add SanitizeTitle oid m article"
    by (simp add: ArticleService_Add_def)
next
  assume "d \<in> set (C (snd (ArticleService_Update SanitizeTitle set_order ref_order m ident article)) ''article'')
      \<and> d \<notin> set (C m ''article'')"
  then obtain d0 where "map_of d = (map_of d0)
       (''titre'' \<mapsto> BString (Titre article),
        ''pretty'' \<mapsto> BString (SanitizeTitle (Titre article)),
        ''image'' \<mapsto> BDoc (Image article),
        ''vignette'' \<mapsto> BDoc (Vignette article),
        ''texte'' \<mapsto> BString (Texte article),
        ''status'' \<mapsto> BString (Status article),
        ''modified'' \<mapsto> marshal_Time (Modified article),
        ''tags'' \<mapsto> BArray (Tags article),
        ''userref'' \<mapsto> BDoc (bson_M ref_order
            [(''$ref'', BString (Collection (UserRef article))),
             (''$id'', Id (UserRef article))]))"
    using ArticleService_Update_written [of d SanitizeTitle set_order ref_order m ident article] by blast
  then have u: "map_of d ''userref'' = Some (BDoc (bson_M ref_order
            [(''$ref'', BString (Collection (UserRef article))),
             (''$id'', Id (UserRef article))]))"
    by simp
  then have f: "doc_field d ''userref'' = bson_M ref_order
            [(''$ref'', BString (Collection (UserRef article))),
             (''$id'', Id (UserRef article))]"
    by (simp add: doc_field_def)
  from userref_orders [OF f] u f
  have both: "(map_of d ''userref''
         = Some (BDoc [(''$ref'', BString (Collection (UserRef article))),
                       (''$id'', Id (UserRef article))])
       \<or> map_of d ''userref''
         = Some (BDoc [(''$id'', Id (UserRef article)),
                       (''$ref'', BString (Collection (UserRef article)))]))
      \<and> unmarshal_DBRef (doc_field d ''userref'')
         = \<lparr>Collection = Collection (UserRef article), Id = Id (UserRef article), Database = []\<rparr>"
    by auto
  from both show "map_of d ''userref''
         = Some (BDoc [(''$ref'', BString (Collection (UserRef article))),
                       (''$id'', Id (UserRef article))])
       \<or> map_of d ''userref''
         = Some (BDoc [(''$id'', Id (UserRef article)),
                       (''$ref'', BString (Collection (UserRef article)))])"
    by blast
  from both show "unmarshal_DBRef (doc_field d ''userref'')
         = \<lparr>Collection = Collection (UserRef article), Id = Id (UserRef article), Database = []\<rparr>"
    by blast
next
  assume "ObjectIdHex ident = Return oid'
        \<and> find (matches [(''_id'', BObjectId oid')]) (C m ''article'') = Some d0
        \<and> list_all valid_bson (Tags article) \<and> valid_doc (Image article)
        \<and> valid_doc (Vignette article) \<and> valid_bson (Id (UserRef article))"
  then obtain d' where r: "ArticleService_Update SanitizeTitle set_order ref_order m ident article =
        (Return None, m\<lparr>Database := (Database m)
           (''article'' := update_first (matches [(''_id'', BObjectId oid')]) (\<lambda>_. d') (C m ''article''))\<rparr>)"
    and m: "map_of d' = (map_of d0)
       (''titre'' \<mapsto> BString (Titre article),
        ''pretty'' \<mapsto> BString (SanitizeTitle (Titre article)),
        ''image'' \<mapsto> BDoc (Image article),
        ''vignette'' \<mapsto> BDoc (Vignette article),
        ''texte'' \<mapsto> BString (Texte article),
        ''status'' \<mapsto> BString (Status article),
        ''modified'' \<mapsto> marshal_Time (Modified article),
        ''tags'' \<mapsto> BArray (Tags article),
        ''userref'' \<mapsto> BDoc (bson_M ref_order
            [(''$ref'', BString (Collection (UserRef article))),
             (''$id'', Id (UserRef article))]))"
    using ArticleService_Update_success [where ident = ident and oid = oid' and m = m
        and ?d0.0 = d0 and article = article and SanitizeTitle = SanitizeTitle
        and set_order = set_order and ref_order = ref_order]
    by blast
  from r have s: "C (snd (ArticleService_Update SanitizeTitle set_order ref_order m ident article)) ''article''
              = update_first (matches [(''_id'', BObjectId oid')]) (\<lambda>_. d') (C m ''article'')"
    by (simp add: C_def)
  from m have u: "map_of d' ''userref'' = Some (BDoc (bson_M ref_order
            [(''$ref'', BString (Collection (UserRef article))),
             (''$id'', Id (UserRef article))]))"
    by simp
  then have f: "doc_field d' ''userref'' = bson_M ref_order
            [(''$ref'', BString (Collection (UserRef article))),
             (''$id'', Id (UserRef article))]"
    by (simp add: doc_field_def)
  from userref_orders [OF f] u f
  have "(map_of d' ''userref''
               = Some (BDoc [(''$ref'', BString (Collection (UserRef article))),
                             (''$id'', Id (UserRef article))])
             \<or> map_of d' ''userref''
               = Some (BDoc [(''$id'', Id (UserRef article)),
                             (''$ref'', BString (Collection (UserRef article)))]))
         \<and> unmarshal_DBRef (doc_field d' ''userref'')
             = \<lparr>Collection = Collection (UserRef article), Id = Id (UserRef article),
                Database = []\<rparr>"
    by auto
  with s show "\<exists>d'. C (snd (ArticleService_Update SanitizeTitle set_order ref_order m ident article)) ''article''
              = update_first (matches [(''_id'', BObjectId oid')]) (\<lambda>_. d') (C m ''article'')
         \<and> (map_of d' ''userref''
               = Some (BDoc [(''$ref'', BString (Collection (UserRef article))),
                             (''$id'', Id (UserRef article))])
             \<or> map_of d' ''userref''
               = Some (BDoc [(''$id'', Id (UserRef article)),
                             (''$ref'', BString (Collection (UserRef article)))]))
         \<and> unmarshal_DBRef (doc_field d' ''userref'')
             = \<lparr>Collection = Collection (UserRef article), Id = Id (UserRef article),
                Database = []\<rparr>"
    by blast
qed

theorem author_reference_collection_witness:
  "hd (C mongo_hello ''article'')
      \<in> set (C (snd (ArticleService_Add sample_SanitizeTitle sample_oid mongo_empty sample_article)) ''article'')
   \<and> hd (C mongo_hello ''article'') \<notin> set (C mongo_empty ''article'')
   \<and> map_of (hd (C mongo_hello ''article'')) ''userref''
        = Some (BDoc [(''$ref'', BString ''user''), (''$id'', BString ''bob'')])
   \<and> Collection (UserRef sample_article) = ''people''
   \<and> hd (C mongo_second ''article'')
      \<in> set (C (snd (ArticleService_Update sample_SanitizeTitle [4, 0, 7] [1] mongo_hello
            ''6162636465666768696a6b6c''
            (sample_article\<lparr>Titre := ''Second title'', Modified := 1600000000000000000\<rparr>))) ''article'')
   \<and> hd (C mongo_second ''article'') \<notin> set (C mongo_hello ''article'')
   \<and> map_of (hd (C mongo_second ''article'')) ''userref''
        = Some (BDoc [(''$id'', BString ''bob''), (''$ref'', BString ''people'')])
   \<and> unmarshal_DBRef (doc_field (hd (C mongo_second ''article'')) ''userref'')
        = \<lparr>Collection = ''people'', Id = BString ''bob'', Database = []\<rparr>"
proof -
  let ?second = "sample_article\<lparr>Titre := ''Second title'', Modified := 1600000000000000000\<rparr>"
  from author_reference_collection [where d = "hd (C mongo_hello ''article'')"
      and SanitizeTitle = sample_SanitizeTitle and oid = sample_oid and m = mongo_empty
      and article = sample_article, THEN conjunct1] sample_hello_written
  have c: "map_of (hd (C mongo_hello ''article'')) ''userref''
        = Some (BDoc [(''$ref'', BString ''user''), (''$id'', Id (UserRef sample_article))])"
    by blast
  have e: "Id (UserRef sample_article) = BString ''bob''" "Collection (UserRef sample_article) = ''people''"
    by (simp_all add: sample_article_def)
  from author_reference_collection [where d = "hd (C mongo_second ''article'')"
      and SanitizeTitle = sample_SanitizeTitle and m = mongo_hello
      and set_order = "[4, 0, 7]" and ref_order = "[1]"
      and ident = "''6162636465666768696a6b6c''" and article = ?second,
      THEN conjunct2, THEN conjunct2, THEN conjunct1] sample_second_written
  have f: "unmarshal_DBRef (doc_field (hd (C mongo_second ''article'')) ''userref'')
         = \<lparr>Collection = Collection (UserRef ?second), Id = Id (UserRef ?second), Database = []\<rparr>"
    by blast
  have g: "map_of (hd (C mongo_second ''article'')) ''userref''
        = Some (BDoc [(''$id'', BString ''bob''), (''$ref'', BString ''people'')])"
    by (simp add: sample_docs_second)
  from sample_hello_written sample_second_written c e f g show ?thesis by simp
qed

section \<open>Add followed by GetByID\<close>

lemma UserService_Add_result:
  assumes "UserService_Add HashPassword oid GenerateSalt m user = (Return (u, None), m')"
  shows "\<exists>d. One [(''_id'', BObjectId oid)] (C m' ''user'') = Inr d \<and> u = unmarshal_User d"
proof (cases GenerateSalt)
  case (Inl e)
  with assms show ?thesis by (simp add: UserService_Add_def)
next
  case (Inr salt)
  note salt = this
  show ?thesis
  proof (cases "32 \<le> length salt")
    case False
    with salt assms show ?thesis by (simp add: UserService_Add_def slice_to_def)
  next
    case True
    note len = this
    show ?thesis
    proof (cases "HashPassword (Password user) salt")
      case (Inl e)
      with salt len assms show ?thesis by (simp add: UserService_Add_def slice_to_def)
    next
      case (Inr h)
      note h = this
      show ?thesis
      proof (cases "32 \<le> length h")
        case False
        with salt len h assms show ?thesis by (simp add: UserService_Add_def slice_to_def)
      next
        case True
        with salt len h assms show ?thesis
          by (auto simp: UserService_Add_def slice_to_def Let_def split: sum.splits)
      qed
    qed
  qed
qed

text \<open>
  C9. When \<open>Add\<close> succeeds, \<open>GetByID\<close> on the hex form of the returned record's \<open>ID\<close>, in
  the state \<open>Add\<close> leaves, returns without error the very record \<open>Add\<close> returned, for users
  and for articles alike. (That record is the one read back from the store; in the instance below it differs
  from the input, by the salt for a user and by the slug for an article.)
\<close>

theorem Add_then_GetByID:
  "(UserService_Add HashPassword oid GenerateSalt m user = (Return (u, None), m') \<longrightarrow>
      UserService_GetByID m' (Hex (User.ID u)) = Return (u, None))
   \<and> (ArticleService_Add SanitizeTitle oid m article = ((r, None), m'') \<longrightarrow>
      ArticleService_GetByID m'' (Hex (Article.ID r)) = Return (r, None))"
proof (intro conjI impI)
  assume "UserService_Add HashPassword oid GenerateSalt m user = (Return (u, None), m')"
  from UserService_Add_result [OF this] obtain d
    where o: "One [(''_id'', BObjectId oid)] (C m' ''user'') = Inr d" and u: "u = unmarshal_User d"
    by blast
  from One_id [OF o] have len: "length oid = 12"
    and did: "map_of d ''_id'' = Some (BObjectId oid)" by blast+
  from u did have "User.ID u = oid" by (simp add: unmarshal_User_def string_field_def)
  with len have "ObjectIdHex (Hex (User.ID u)) = Return oid" by (simp add: ObjectIdHex_Hex)
  with o u show "UserService_GetByID m' (Hex (User.ID u)) = Return (u, None)"
    by (simp add: UserService_GetByID_def UserService_GetByID_body_def)
next
  assume "ArticleService_Add SanitizeTitle oid m article = ((r, None), m'')"
  from ArticleService_Add_result [OF this] obtain d
    where o: "One [(''_id'', BObjectId oid)] (C m'' ''article'') = Inr d"
      and r: "r = unmarshal_Article d"
    by blast
  from One_id [OF o] have len: "length oid = 12"
    and did: "map_of d ''_id'' = Some (BObjectId oid)" by blast+
  from r did have "Article.ID r = oid" by (simp add: unmarshal_Article_def string_field_def)
  with len have "ObjectIdHex (Hex (Article.ID r)) = Return oid" by (simp add: ObjectIdHex_Hex)
  with o r show "ArticleService_GetByID m'' (Hex (Article.ID r)) = Return (r, None)"
    by (simp add: ArticleService_GetByID_def)
qed

theorem Add_then_GetByID_witness:
  "UserService_Add sample_HashPassword sample_oid (Inr sample_salt) mongo_empty sample_user
     = (Return (unmarshal_User (hd (C mongo_bob ''user'')), None), mongo_bob)
   \<and> UserService_GetByID mongo_bob (Hex (User.ID (unmarshal_User (hd (C mongo_bob ''user'')))))
     = Return (unmarshal_User (hd (C mongo_bob ''user'')), None)
   \<and> unmarshal_User (hd (C mongo_bob ''user'')) \<noteq> sample_user
   \<and> ArticleService_Add sample_SanitizeTitle sample_oid mongo_empty sample_article
       = ((unmarshal_Article (hd (C mongo_hello ''article'')), None), mongo_hello)
   \<and> ArticleService_GetByID mongo_hello (Hex (Article.ID (unmarshal_Article (hd (C mongo_hello ''article'')))))
     = Return (unmarshal_Article (hd (C mongo_hello ''article'')), None)
   \<and> unmarshal_Article (hd (C mongo_hello ''article'')) \<noteq> sample_article"
proof -
  note t = Add_then_GetByID [where HashPassword = sample_HashPassword and oid = sample_oid
      and GenerateSalt = "Inr sample_salt" and m = mongo_empty and user = sample_user
      and u = "unmarshal_User (hd (C mongo_bob ''user''))" and m' = mongo_bob
      and SanitizeTitle = sample_SanitizeTitle and article = sample_article
      and r = "unmarshal_Article (hd (C mongo_hello ''article''))" and m'' = mongo_hello]
  from t [THEN conjunct1] sample_Add_user
  have 1: "UserService_GetByID mongo_bob (Hex (User.ID (unmarshal_User (hd (C mongo_bob ''user'')))))
     = Return (unmarshal_User (hd (C mongo_bob ''user'')), None)"
    by blast
  from t [THEN conjunct2] sample_Add_article
  have 2: "ArticleService_GetByID mongo_hello (Hex (Article.ID (unmarshal_Article (hd (C mongo_hello ''article'')))))
     = Return (unmarshal_Article (hd (C mongo_hello ''article'')), None)"
    by blast
  have "Salt (unmarshal_User (hd (C mongo_bob ''user''))) \<noteq> Salt sample_user"
    by (simp add: sample_docs_bob unmarshal_User_def string_field_def sample_user_def)
  then have 3: "unmarshal_User (hd (C mongo_bob ''user'')) \<noteq> sample_user"
    by auto
  have "Pretty (unmarshal_Article (hd (C mongo_hello ''article''))) \<noteq> Pretty sample_article"
    by (simp add: sample_docs_hello unmarshal_Article_def string_field_def sample_article_def)
  then have 4: "unmarshal_Article (hd (C mongo_hello ''article'')) \<noteq> sample_article"
    by auto
  from sample_Add_user sample_Add_article 1 2 3 4 show ?thesis by simp
qed

end
